theory Spec2Isabelle
  imports Main "HOL-Library.Sublist"
begin

section \<open>Python text primitives\<close>

text \<open>
  Text is a list of 8-bit characters (the Latin-1 code points).  The functions below are
  the string methods the validators call, restricted to that range.
\<close>

definition is_space :: "char \<Rightarrow> bool" where
  \<comment> \<open>\<^verbatim>\<open>str.isspace\<close> on one character; the same class as \<^verbatim>\<open>\s\<close> of the \<^verbatim>\<open>re\<close> module\<close>
  "is_space c =
     (c \<in> set [CHR 0x09, CHR 0x0A, CHR 0x0B, CHR 0x0C, CHR 0x0D, CHR 0x1C, CHR 0x1D, CHR 0x1E,
               CHR 0x1F, CHR 0x20, CHR 0x85, CHR 0xA0])"

definition is_linebreak :: "char \<Rightarrow> bool" where
  \<comment> \<open>the line boundaries of \<^verbatim>\<open>str.splitlines\<close>\<close>
  "is_linebreak c =
     (c \<in> set [CHR 0x0A, CHR 0x0B, CHR 0x0C, CHR 0x0D, CHR 0x1C, CHR 0x1D, CHR 0x1E, CHR 0x85])"

definition strip :: "string \<Rightarrow> string" where
  "strip s = rev (dropWhile is_space (rev (dropWhile is_space s)))"

fun splitlines_from :: "string \<Rightarrow> string \<Rightarrow> string list" where
  "splitlines_from cur [] = (if cur = [] then [] else [cur])"
| "splitlines_from cur (c # cs) =
     (if c = CHR 0x0D \<and> cs \<noteq> [] \<and> hd cs = CHR 0x0A then cur # splitlines_from [] (tl cs)
      else if is_linebreak c then cur # splitlines_from [] cs
      else splitlines_from (cur @ [c]) cs)"

definition splitlines :: "string \<Rightarrow> string list" where
  "splitlines s = splitlines_from [] s"

fun str_join :: "string \<Rightarrow> string list \<Rightarrow> string" where
  "str_join sep [] = []"
| "str_join sep [x] = x"
| "str_join sep (x # y # ys) = x @ sep @ str_join sep (y # ys)"

definition upper_letters :: string where
  "upper_letters =
     ''ABCDEFGHIJKLMNOPQRSTUVWXYZ'' @
     [CHR 0xC0, CHR 0xC1, CHR 0xC2, CHR 0xC3, CHR 0xC4, CHR 0xC5, CHR 0xC6, CHR 0xC7,
      CHR 0xC8, CHR 0xC9, CHR 0xCA, CHR 0xCB, CHR 0xCC, CHR 0xCD, CHR 0xCE, CHR 0xCF,
      CHR 0xD0, CHR 0xD1, CHR 0xD2, CHR 0xD3, CHR 0xD4, CHR 0xD5, CHR 0xD6,
      CHR 0xD8, CHR 0xD9, CHR 0xDA, CHR 0xDB, CHR 0xDC, CHR 0xDD, CHR 0xDE]"

definition lower_letters :: string where
  "lower_letters =
     ''abcdefghijklmnopqrstuvwxyz'' @
     [CHR 0xE0, CHR 0xE1, CHR 0xE2, CHR 0xE3, CHR 0xE4, CHR 0xE5, CHR 0xE6, CHR 0xE7,
      CHR 0xE8, CHR 0xE9, CHR 0xEA, CHR 0xEB, CHR 0xEC, CHR 0xED, CHR 0xEE, CHR 0xEF,
      CHR 0xF0, CHR 0xF1, CHR 0xF2, CHR 0xF3, CHR 0xF4, CHR 0xF5, CHR 0xF6,
      CHR 0xF8, CHR 0xF9, CHR 0xFA, CHR 0xFB, CHR 0xFC, CHR 0xFD, CHR 0xFE]"

definition lower_char :: "char \<Rightarrow> char" where
  \<comment> \<open>\<^verbatim>\<open>str.lower\<close> on one character: the letter at the same place of the lower-case row\<close>
  "lower_char c = (case map_of (zip upper_letters lower_letters) c of None \<Rightarrow> c | Some d \<Rightarrow> d)"

definition lower :: "string \<Rightarrow> string" where
  "lower s = map lower_char s"

definition startswith :: "string \<Rightarrow> string \<Rightarrow> bool" where
  "startswith s p = prefix p s"

definition endswith :: "string \<Rightarrow> string \<Rightarrow> bool" where
  "endswith s p = suffix p s"

fun str_contains :: "string \<Rightarrow> string \<Rightarrow> bool" where
  \<comment> \<open>\<^verbatim>\<open>sub in s\<close>\<close>
  "str_contains sub [] = (sub = [])"
| "str_contains sub (c # cs) = (prefix sub (c # cs) \<or> str_contains sub cs)"

definition any_in :: "string list \<Rightarrow> string \<Rightarrow> bool" where
  \<comment> \<open>\<^verbatim>\<open>any(kw in s for kw in kws)\<close>\<close>
  "any_in kws s = list_ex (\<lambda>kw. str_contains kw s) kws"

fun str_find :: "string \<Rightarrow> string \<Rightarrow> int" where
  \<comment> \<open>\<^verbatim>\<open>s.find(sub)\<close>: the first index, or -1\<close>
  "str_find sub [] = (if sub = [] then 0 else -1)"
| "str_find sub (c # cs) =
     (if prefix sub (c # cs) then 0
      else (let r = str_find sub cs in if r < 0 then -1 else r + 1))"

definition digit_char :: "nat \<Rightarrow> char" where
  "digit_char d = char_of (48 + d)"

fun str_nat :: "nat \<Rightarrow> string" where
  "str_nat n = (if n < 10 then [digit_char n] else str_nat (n div 10) @ [digit_char (n mod 10)])"

declare str_nat.simps [simp del]

definition str_int :: "int \<Rightarrow> string" where
  \<comment> \<open>\<^verbatim>\<open>str(n)\<close> of an integer\<close>
  "str_int i = (if i < 0 then CHR ''-'' # str_nat (nat (- i)) else str_nat (nat i))"

definition yes_no :: "bool \<Rightarrow> string" where
  "yes_no b = (if b then ''yes'' else ''no'')"

section \<open>Checks and exceptions\<close>

record check =
  name :: string
  max_points :: int
  points_awarded :: int
  passed :: bool
  details :: string

definition mk_check :: "string \<Rightarrow> int \<Rightarrow> bool \<Rightarrow> string \<Rightarrow> check" where
  \<comment> \<open>\<^verbatim>\<open>_check(name, max_points, passed, details)\<close>, the same helper in every validator\<close>
  "mk_check n m p d =
     \<lparr>name = n, max_points = m, points_awarded = (if p then m else 0), passed = p, details = d\<rparr>"

text \<open>
  The exceptions that can leave a validator: each carries the text \<^verbatim>\<open>str(e)\<close> gives.
\<close>

datatype exn = AttributeError string | TypeError string | UnicodeDecodeError string

fun exn_text :: "exn \<Rightarrow> string" where
  "exn_text (AttributeError m) = m"
| "exn_text (TypeError m) = m"
| "exn_text (UnicodeDecodeError m) = m"

definition bindE :: "exn + 'a \<Rightarrow> ('a \<Rightarrow> exn + 'b) \<Rightarrow> exn + 'b" where
  "bindE m f = (case m of Inl e \<Rightarrow> Inl e | Inr x \<Rightarrow> f x)"

section \<open>The submission directory\<close>

text \<open>
  A submission is a directory tree.  A file holds what \<^verbatim>\<open>f.read()\<close> returns in text mode,
  or bytes the codec rejects, for which \<^verbatim>\<open>read\<close> raises \<^verbatim>\<open>UnicodeDecodeError\<close> with the
  given text.  A path is the list of names below the submission root.
\<close>

datatype fcontent = Text string | Undecodable string

datatype fsnode = File fcontent | Dir "(string \<times> fsnode) list"

fun lookup_path :: "string list \<Rightarrow> fsnode \<Rightarrow> fsnode option" where
  "lookup_path [] n = Some n"
| "lookup_path (p # ps) n =
     (case n of
        File _ \<Rightarrow> None
      | Dir es \<Rightarrow> (case map_of es p of None \<Rightarrow> None | Some m \<Rightarrow> lookup_path ps m))"

definition isdir :: "fsnode \<Rightarrow> string list \<Rightarrow> bool" where
  "isdir root path = (case lookup_path path root of Some (Dir _) \<Rightarrow> True | _ \<Rightarrow> False)"

definition listdir :: "fsnode \<Rightarrow> string list \<Rightarrow> string list" where
  "listdir root path = (case lookup_path path root of Some (Dir es) \<Rightarrow> remdups (map fst es) | _ \<Rightarrow> [])"

definition read_file :: "fsnode \<Rightarrow> string list \<Rightarrow> exn + string" where
  \<comment> \<open>\<^verbatim>\<open>_read_file\<close>: \<^verbatim>\<open>FileNotFoundError\<close> and \<^verbatim>\<open>IOError\<close> give the empty text, a decoding
      error is not caught\<close>
  "read_file root path =
     (case lookup_path path root of
        Some (File (Text s)) \<Rightarrow> Inr s
      | Some (File (Undecodable m)) \<Rightarrow> Inl (UnicodeDecodeError m)
      | _ \<Rightarrow> Inr [])"

fun read_all :: "fsnode \<Rightarrow> string list list \<Rightarrow> exn + string list" where
  \<comment> \<open>a loop that reads the files of a list in order\<close>
  "read_all root [] = Inr []"
| "read_all root (p # ps) =
     bindE (read_file root p) (\<lambda>s. bindE (read_all root ps) (\<lambda>ss. Inr (s # ss)))"

section \<open>Fixed regular expressions as backtracking matchers\<close>

text \<open>
  A matcher maps a text to the remainders it can leave after matching a prefix of it, in
  the order in which the backtracking engine of \<^verbatim>\<open>re\<close> tries them: the first remainder is
  the match the engine reports at that position.
\<close>

type_synonym matcher = "string \<Rightarrow> string list"

definition lit :: "string \<Rightarrow> matcher" where
  "lit p s = (if prefix p s then [drop (length p) s] else [])"

fun many :: "(char \<Rightarrow> bool) \<Rightarrow> matcher" where
  \<comment> \<open>\<^verbatim>\<open>[class]*\<close>, greedy: the longest run first\<close>
  "many P [] = [[]]"
| "many P (c # cs) = (if P c then many P cs else []) @ [c # cs]"

fun many_lazy :: "(char \<Rightarrow> bool) \<Rightarrow> matcher" where
  \<comment> \<open>\<^verbatim>\<open>[class]*?\<close>: the shortest run first\<close>
  "many_lazy P [] = [[]]"
| "many_lazy P (c # cs) = (c # cs) # (if P c then many_lazy P cs else [])"

definition one :: "(char \<Rightarrow> bool) \<Rightarrow> matcher" where
  "one P s = (case s of [] \<Rightarrow> [] | c # cs \<Rightarrow> (if P c then [cs] else []))"

definition seq :: "matcher \<Rightarrow> matcher \<Rightarrow> matcher" where
  "seq m1 m2 s = concat (map m2 (m1 s))"

definition alt :: "matcher \<Rightarrow> matcher \<Rightarrow> matcher" where
  "alt m1 m2 s = m1 s @ m2 s"

definition some :: "(char \<Rightarrow> bool) \<Rightarrow> matcher" where
  \<comment> \<open>\<^verbatim>\<open>[class]+\<close>\<close>
  "some P = seq (one P) (many P)"

definition at_end :: matcher where
  \<comment> \<open>\<^verbatim>\<open>$\<close> on a text without line breaks\<close>
  "at_end s = (if s = [] then [[]] else [])"

definition not_ahead :: "(string \<Rightarrow> bool) \<Rightarrow> matcher" where
  \<comment> \<open>a negative lookahead\<close>
  "not_ahead P s = (if P s then [] else [s])"

definition dot :: "char \<Rightarrow> bool" where
  \<comment> \<open>\<^verbatim>\<open>.\<close> without \<^verbatim>\<open>DOTALL\<close>\<close>
  "dot c = (c \<noteq> CHR 0x0A)"

fun search :: "matcher \<Rightarrow> string \<Rightarrow> bool" where
  \<comment> \<open>\<^verbatim>\<open>bool(re.search(...))\<close>\<close>
  "search m [] = (m [] \<noteq> [])"
| "search m (c # cs) = (m (c # cs) \<noteq> [] \<or> search m cs)"

definition match :: "matcher \<Rightarrow> string \<Rightarrow> bool" where
  \<comment> \<open>\<^verbatim>\<open>bool(re.match(...))\<close>: at the start of the text only\<close>
  "match m s = (m s \<noteq> [])"

fun re_sub_from :: "matcher \<Rightarrow> nat \<Rightarrow> string \<Rightarrow> string" where
  \<comment> \<open>\<^verbatim>\<open>re.sub(pattern, '', text)\<close>; the number counts the characters of the text that
      the last match still covers\<close>
  "re_sub_from m k [] = []"
| "re_sub_from m k (c # cs) =
     (if 0 < k then re_sub_from m (k - 1) cs
      else (case m (c # cs) of
              [] \<Rightarrow> c # re_sub_from m 0 cs
            | r # _ \<Rightarrow>
                (let n = length (c # cs) - length r
                 in if n = 0 then c # re_sub_from m 0 cs else re_sub_from m (n - 1) cs)))"

definition re_sub :: "matcher \<Rightarrow> string \<Rightarrow> string" where
  "re_sub m s = re_sub_from m 0 s"

fun findall_from :: "matcher \<Rightarrow> nat \<Rightarrow> string \<Rightarrow> string list" where
  \<comment> \<open>\<^verbatim>\<open>re.findall(pattern, text)\<close> for a pattern without groups\<close>
  "findall_from m k [] = (if k = 0 \<and> m [] \<noteq> [] then [[]] else [])"
| "findall_from m k (c # cs) =
     (if 0 < k then findall_from m (k - 1) cs
      else (case m (c # cs) of
              [] \<Rightarrow> findall_from m 0 cs
            | r # _ \<Rightarrow>
                (let n = length (c # cs) - length r
                 in take n (c # cs) # findall_from m (n - 1) cs)))"

definition findall :: "matcher \<Rightarrow> string \<Rightarrow> string list" where
  "findall m s = findall_from m 0 s"

section \<open>The evaluator's surroundings\<close>

datatype proc_result = Returned int | FileNotFoundError | TimeoutExpired

text \<open>
  Python values as the YAML loader builds them.
\<close>

datatype yv = YNone | YBool bool | YInt int | YStr string | YList "yv list" | YDict "(string \<times> yv) list"

text \<open>
  The nodes of a Python syntax tree, as far as the validators look into them: a function
  definition with its name and the statements of its body, \<^verbatim>\<open>pass\<close>, an expression statement,
  a name, a string constant, an attribute access, a call with its callee.
\<close>

datatype expr =
    Name string
  | StrConstant string
  | Attribute expr string
  | Call expr
  | OtherExpr

datatype stmt =
    FunctionDef string "stmt list"
  | Pass
  | Expr expr
  | OtherStmt

datatype node = StmtNode stmt | ExprNode expr | OtherNode

text \<open>
  What the evaluator reads besides the submission: the keyword file shipped with it (the
  parsed \<^verbatim>\<open>concept_keywords.json\<close>: group, sublist, patterns; empty when the file is missing
  or not JSON), \<^verbatim>\<open>re.search\<close> on a pattern of that file, the optional HCL library, the YAML
  loader (\<^verbatim>\<open>Inl\<close> the text of a \<^verbatim>\<open>YAMLError\<close>), the Python parser (\<^verbatim>\<open>ast.parse\<close> and the
  nodes \<^verbatim>\<open>ast.walk\<close> yields from the tree, in its order; \<^verbatim>\<open>Inl\<close> the text of the
  \<^verbatim>\<open>SyntaxError\<close>) and the external \<^verbatim>\<open>shellcheck\<close> process run on a file of the submission.
\<close>

record world =
  keyword_file :: "(string \<times> (string \<times> string list) list) list"
  re_search :: "string \<Rightarrow> string \<Rightarrow> bool"
  hcl2_available :: bool
  hcl2_load :: "string \<Rightarrow> string list option"
  yaml_safe_load_all :: "string \<Rightarrow> yv list option"
  yaml_safe_load :: "string \<Rightarrow> string + yv"
  ast_parse :: "string \<Rightarrow> string + node list"
  shellcheck :: "string list \<Rightarrow> proc_result"

definition kw_list :: "world \<Rightarrow> string \<Rightarrow> string \<Rightarrow> string list" where
  \<comment> \<open>\<^verbatim>\<open>keywords.get(group, {}).get(sub, [])\<close>\<close>
  "kw_list w grp sub =
     (case map_of (keyword_file w) grp of
        None \<Rightarrow> []
      | Some g \<Rightarrow> (case map_of g sub of None \<Rightarrow> [] | Some ps \<Rightarrow> ps))"

definition kw_matches :: "world \<Rightarrow> string list \<Rightarrow> string \<Rightarrow> int" where
  \<comment> \<open>\<^verbatim>\<open>sum(1 for kw in kws if re.search(kw, text))\<close>\<close>
  "kw_matches w kws text = int (length (filter (\<lambda>kw. re_search w kw text) kws))"

section \<open>terraform\_validator.py\<close>

text \<open>The long dash of the source's messages is written as a hyphen.\<close>

definition tf_comment_rx :: matcher where
  \<comment> \<open>\<^verbatim>\<open>\s*#(?!.*").*$\<close>\<close>
  "tf_comment_rx =
     seq (many is_space) (seq (lit ''#'')
       (seq (not_ahead (\<lambda>s. CHR 0x22 \<in> set (takeWhile dot s))) (seq (many dot) at_end)))"

definition strip_tf_comments :: "string \<Rightarrow> string" where
  \<comment> \<open>\<^verbatim>\<open>_strip_tf_comments\<close>\<close>
  "strip_tf_comments content =
     str_join [CHR 0x0A]
       (map (re_sub tf_comment_rx)
          (filter (\<lambda>line. \<not> (startswith (strip line) ''#'' \<or> startswith (strip line) ''//''))
             (splitlines content)))"

definition parse_hcl_file :: "world \<Rightarrow> fsnode \<Rightarrow> string list \<Rightarrow> string list option" where
  \<comment> \<open>\<^verbatim>\<open>_parse_hcl_file\<close>: the top-level keys of the parsed file; any exception gives None\<close>
  "parse_hcl_file w root path =
     (if \<not> hcl2_available w then None
      else (case lookup_path path root of
              Some (File (Text s)) \<Rightarrow> hcl2_load w s
            | _ \<Rightarrow> None))"

definition tf_dir :: "string list" where
  "tf_dir = [''terraform'']"

definition tf_files :: "fsnode \<Rightarrow> string list" where
  \<comment> \<open>the names of the dictionary \<^verbatim>\<open>tf_files\<close>, in the order of \<^verbatim>\<open>os.listdir\<close>\<close>
  "tf_files root = filter (\<lambda>fname. endswith fname ''.tf'') (listdir root tf_dir)"

definition tf_check_hcl :: "world \<Rightarrow> fsnode \<Rightarrow> check" where
  \<comment> \<open>Check 1\<close>
  "tf_check_hcl w root =
     (if \<not> hcl2_available w
      then mk_check ''HCL parsing (python-hcl2)'' 5 False
             ''python-hcl2 not installed - install with: pip install python-hcl2''
      else (let parse_errors =
                  filter (\<lambda>fname. parse_hcl_file w root (tf_dir @ [fname]) = None) (tf_files root)
            in if parse_errors \<noteq> []
               then mk_check ''HCL parsing'' 5 False
                      (''Parse errors in: '' @ str_join '', '' parse_errors)
               else mk_check ''HCL parsing'' 5 (0 < length (tf_files root))
                      (if tf_files root = [] then ''No .tf files found'' else [])))"

definition all_parsed :: "world \<Rightarrow> fsnode \<Rightarrow> string list list" where
  \<comment> \<open>the values of the dictionary \<^verbatim>\<open>all_parsed\<close>\<close>
  "all_parsed w root =
     (if \<not> hcl2_available w then []
      else concat (map (\<lambda>fname. case parse_hcl_file w root (tf_dir @ [fname]) of
                                    None \<Rightarrow> [] | Some parsed \<Rightarrow> [parsed])
                     (tf_files root)))"

definition key_files :: "string list" where
  "key_files = [''main.tf'', ''networking.tf'', ''variables.tf'']"

definition tf_content_lines :: "string \<Rightarrow> string list" where
  "tf_content_lines content =
     map strip
       (filter (\<lambda>l. strip l \<noteq> [] \<and> \<not> startswith (strip l) ''#'' \<and> \<not> startswith (strip l) ''//'')
          (splitlines content))"

definition tf_check_plan :: "world \<Rightarrow> fsnode \<Rightarrow> string list \<Rightarrow> check" where
  \<comment> \<open>Check 2, from the texts of the key files\<close>
  "tf_check_plan w root key_contents =
     (let files_with_content =
            length (filter (\<lambda>content. 3 < length (tf_content_lines content)) key_contents);
          has_resource_blocks = list_ex (\<lambda>parsed. ''resource'' \<in> set parsed) (all_parsed w root);
          plan_ok = (2 \<le> files_with_content \<and> has_resource_blocks)
      in mk_check ''Plan structure (resource blocks exist)'' 5 plan_ok
           (if \<not> plan_ok then ''Missing resource blocks in Terraform files'' else []))"

definition tf_all_content :: "string list \<Rightarrow> string" where
  "tf_all_content contents = concat (map (\<lambda>c. c @ [CHR 0x0A]) contents)"

definition tf_check_vpc :: "string \<Rightarrow> check" where
  \<comment> \<open>Check 3\<close>
  "tf_check_vpc all_content =
     (let content_lower = lower all_content;
          has_vpc = str_contains ''aws_vpc'' all_content;
          has_public_subnet =
            (str_contains ''public'' content_lower \<and> str_contains ''aws_subnet'' all_content);
          has_private_subnet =
            (str_contains ''private'' content_lower \<and> str_contains ''aws_subnet'' all_content);
          has_nat = str_contains ''aws_nat_gateway'' all_content;
          has_igw = str_contains ''aws_internet_gateway'' all_content;
          vpc_score = (if has_vpc then 1 else 0)
                    + (if has_public_subnet \<and> has_private_subnet then 1 else 0)
                    + (if has_nat then 1 else 0)
                    + (if has_igw then (1::int) else 0)
      in mk_check ''VPC: public + private subnets, NAT gateway'' 4 (3 \<le> vpc_score)
           (''VPC components found: '' @ str_int vpc_score @ ''/4 (VPC, subnets, NAT, IGW)''))"

definition ingress_rx :: matcher where
  \<comment> \<open>\<^verbatim>\<open>ingress\s*\{[^}]*(?:from_port\s*=\s*22|to_port\s*=\s*22)[^}]*\}\<close> with \<^verbatim>\<open>DOTALL\<close>\<close>
  "ingress_rx =
     seq (lit ''ingress'') (seq (many is_space) (seq (lit ''{'')
       (seq (many (\<lambda>c. c \<noteq> CHR ''}''))
         (seq (alt (seq (lit ''from_port'') (seq (many is_space) (seq (lit ''='')
                      (seq (many is_space) (lit ''22'')))))
                   (seq (lit ''to_port'') (seq (many is_space) (seq (lit ''='')
                      (seq (many is_space) (lit ''22''))))))
            (seq (many (\<lambda>c. c \<noteq> CHR ''}'')) (lit ''}''))))))"

definition ssh_open_in :: "string \<Rightarrow> bool" where
  \<comment> \<open>an ingress block of the text names port 22 and \<^verbatim>\<open>0.0.0.0/0\<close>\<close>
  "ssh_open_in content = list_ex (\<lambda>block. str_contains ''0.0.0.0/0'' block) (findall ingress_rx content)"

definition tf_check_sg :: "string list \<Rightarrow> check" where
  \<comment> \<open>Check 4, from the texts of the .tf files\<close>
  "tf_check_sg contents =
     (let ssh_open = list_ex ssh_open_in contents
      in mk_check ''Security groups: no 0.0.0.0/0 on SSH'' 2 (\<not> ssh_open)
           (if ssh_open then ''SSH (port 22) is open to 0.0.0.0/0 - restrict to management CIDR''
            else []))"

definition tf_check_eks :: "string \<Rightarrow> check" where
  \<comment> \<open>Check 5\<close>
  "tf_check_eks all_content =
     (let has_eks_cluster = str_contains ''aws_eks_cluster'' all_content;
          has_eks_node_group = str_contains ''aws_eks_node_group'' all_content;
          has_iam_role = str_contains ''aws_iam_role'' all_content;
          eks_score = (if has_eks_cluster then 1 else 0)
                    + (if has_eks_node_group \<and> has_iam_role then (1::int) else 0)
      in mk_check ''EKS: cluster, IAM roles, node groups'' 2 (2 \<le> eks_score)
           (''EKS components: cluster='' @ yes_no has_eks_cluster
            @ '', node_group='' @ yes_no has_eks_node_group
            @ '', iam='' @ yes_no has_iam_role))"

definition cost_markers :: "string list" where
  "cost_markers =
     [''todo'', ''hint:'', ''task:'', ''requirements:'', ''implement'', ''---'',
      ''your cost analysis'', ''such as:'', ''address the findings'']"

definition analysis_markers :: "string list" where
  "analysis_markers =
     cost_markers @
     [''analyze'', ''propose'', ''explain'', ''describe'', ''consider'',
      ''lifecycle policies'', ''spot/mixed'', ''right-siz'', ''cost-sav'',
      ''cost_optimization.tf'', ''cost report'']"

definition comment_lines_without :: "string list \<Rightarrow> string \<Rightarrow> string list" where
  "comment_lines_without markers raw =
     filter (\<lambda>l. startswith (strip l) ''#'' \<and> 10 < length (strip l) \<and> \<not> any_in markers (lower l))
       (splitlines raw)"

definition tf_check_cost :: "string \<Rightarrow> check" where
  \<comment> \<open>Check 6, from the text of \<^verbatim>\<open>cost_optimization.tf\<close>\<close>
  "tf_check_cost cost_content_raw =
     (let cost_lower = lower (strip_tf_comments cost_content_raw);
          spot = any_in [''spot'', ''mixed_instances'', ''mixed instance'', ''on_demand_percentage''] cost_lower;
          lifecycle = any_in [''lifecycle'', ''transition'', ''glacier'', ''infrequent_access'',
                              ''intelligent_tiering''] cost_lower;
          rightsizing = any_in [''rightsize'', ''right-size'', ''smaller instance'', ''instance_type'',
                                ''graviton''] cost_lower;
          comments = (5 \<le> length (comment_lines_without cost_markers cost_content_raw));
          cost_score = (if spot then 1 else 0) + (if lifecycle then 1 else 0)
                     + (if rightsizing then 1 else 0) + (if comments then (1::int) else 0);
          cost_details = (if spot then [''spot/mixed instances''] else [])
                       @ (if lifecycle then [''S3 lifecycle''] else [])
                       @ (if rightsizing then [''rightsizing''] else [])
                       @ (if comments then [''cost analysis comments''] else [])
      in mk_check ''Cost optimization: spot, lifecycle, rightsizing'' 4 (2 \<le> cost_score)
           (if cost_details \<noteq> [] then ''Found: '' @ str_join '', '' cost_details
            else ''No cost optimization measures found''))"

definition tf_check_analysis :: "string \<Rightarrow> check" where
  \<comment> \<open>Check 7\<close>
  "tf_check_analysis cost_content_raw =
     (let analysis_comments = comment_lines_without analysis_markers cost_content_raw;
          analysis_text = lower (str_join [CHR 0x0A] analysis_comments);
          analysis_score =
            (if 5 \<le> length analysis_comments
             then (if any_in [''monthly cost'', ''total cost'', ''saving'', ''reduce'', ''current spend'']
                        analysis_text then 1 else 0)
                + (if any_in [''$'', ''usd'', ''percent'', ''%'', ''estimated''] analysis_text then 1 else 0)
                + (if any_in [''trade-off'', ''tradeoff'', ''risk'', ''consideration'', ''impact'']
                        analysis_text then 1 else 0)
             else (0::int))
      in mk_check ''Cost analysis: report review and savings proposals'' 3 (2 \<le> analysis_score)
           (''Cost analysis depth: '' @ str_int analysis_score @ ''/3''))"

definition terraform_validate :: "world \<Rightarrow> fsnode \<Rightarrow> bool \<Rightarrow> exn + check list" where
  \<comment> \<open>\<^verbatim>\<open>terraform_validator.validate\<close>\<close>
  "terraform_validate w root quick =
     (if \<not> isdir root tf_dir
      then Inr [mk_check ''Terraform directory exists'' 5 False ''submission/terraform/ not found'']
      else
        bindE (read_all root (map (\<lambda>kf. tf_dir @ [kf]) key_files)) (\<lambda>key_contents.
        if quick then Inr [tf_check_hcl w root, tf_check_plan w root key_contents]
        else
          bindE (read_all root (map (\<lambda>f. tf_dir @ [f]) (tf_files root))) (\<lambda>contents.
          bindE (read_file root (tf_dir @ [''networking.tf''])) (\<lambda>networking_content.
          bindE (read_all root (map (\<lambda>f. tf_dir @ [f]) (tf_files root))) (\<lambda>contents2.
          bindE (read_file root (tf_dir @ [''cost_optimization.tf''])) (\<lambda>cost_content_raw.
          Inr [tf_check_hcl w root,
               tf_check_plan w root key_contents,
               tf_check_vpc (tf_all_content contents),
               tf_check_sg contents2,
               tf_check_eks (tf_all_content contents),
               tf_check_cost cost_content_raw,
               tf_check_analysis cost_content_raw]))))))"

section \<open>kubernetes\_validator.py\<close>

subsection \<open>Python operations on loaded YAML values\<close>

text \<open>
  A dictionary is the list of its items, each key once.  Numbers stand for every scalar
  without attributes that is not iterable.
\<close>

fun type_name :: "yv \<Rightarrow> string" where
  "type_name YNone = ''NoneType''"
| "type_name (YBool _) = ''bool''"
| "type_name (YInt _) = ''int''"
| "type_name (YStr _) = ''str''"
| "type_name (YList _) = ''list''"
| "type_name (YDict _) = ''dict''"

definition no_attribute :: "yv \<Rightarrow> string \<Rightarrow> exn" where
  "no_attribute v a =
     AttributeError ([CHR 0x27] @ type_name v @ [CHR 0x27] @ '' object has no attribute ''
                     @ [CHR 0x27] @ a @ [CHR 0x27])"

definition py_get :: "yv \<Rightarrow> string \<Rightarrow> yv \<Rightarrow> exn + yv" where
  \<comment> \<open>\<^verbatim>\<open>v.get(key, default)\<close>\<close>
  "py_get v k d =
     (case v of
        YDict kvs \<Rightarrow> Inr (case map_of kvs k of None \<Rightarrow> d | Some x \<Rightarrow> x)
      | _ \<Rightarrow> Inl (no_attribute v ''get''))"

fun truthy :: "yv \<Rightarrow> bool" where
  "truthy YNone = False"
| "truthy (YBool b) = b"
| "truthy (YInt i) = (i \<noteq> 0)"
| "truthy (YStr s) = (s \<noteq> [])"
| "truthy (YList xs) = (xs \<noteq> [])"
| "truthy (YDict kvs) = (kvs \<noteq> [])"

definition py_iter :: "yv \<Rightarrow> exn + yv list" where
  \<comment> \<open>the elements a \<^verbatim>\<open>for\<close> loop or \<^verbatim>\<open>list.extend\<close> takes from a value\<close>
  "py_iter v =
     (case v of
        YList xs \<Rightarrow> Inr xs
      | YStr s \<Rightarrow> Inr (map (\<lambda>c. YStr [c]) s)
      | YDict kvs \<Rightarrow> Inr (map (\<lambda>kv. YStr (fst kv)) kvs)
      | _ \<Rightarrow> Inl (TypeError ([CHR 0x27] @ type_name v @ [CHR 0x27] @ '' object is not iterable'')))"

definition py_str_in :: "string \<Rightarrow> yv \<Rightarrow> exn + bool" where
  \<comment> \<open>\<^verbatim>\<open>"text" in v\<close>\<close>
  "py_str_in x v =
     (case v of
        YList xs \<Rightarrow> Inr (YStr x \<in> set xs)
      | YStr s \<Rightarrow> Inr (str_contains x s)
      | YDict kvs \<Rightarrow> Inr (x \<in> set (map fst kvs))
      | _ \<Rightarrow> Inl (TypeError (''argument of type '' @ [CHR 0x27] @ type_name v @ [CHR 0x27]
                               @ '' is not iterable'')))"

definition is_kind :: "yv \<Rightarrow> string \<Rightarrow> bool" where
  \<comment> \<open>\<^verbatim>\<open>isinstance(doc, dict) and doc.get("kind") == k\<close>\<close>
  "is_kind doc k =
     (case doc of
        YDict kvs \<Rightarrow> (case map_of kvs ''kind'' of Some (YStr s) \<Rightarrow> s = k | _ \<Rightarrow> False)
      | _ \<Rightarrow> False)"

fun or_each :: "('a \<Rightarrow> exn + bool) \<Rightarrow> 'a list \<Rightarrow> exn + bool" where
  \<comment> \<open>a loop over the whole list that sets a flag; the first exception leaves the loop\<close>
  "or_each f [] = Inr False"
| "or_each f (x # xs) = bindE (f x) (\<lambda>b. bindE (or_each f xs) (\<lambda>bs. Inr (b \<or> bs)))"

fun flags_each :: "('a \<Rightarrow> exn + bool \<times> bool) \<Rightarrow> 'a list \<Rightarrow> exn + bool \<times> bool" where
  \<comment> \<open>the same for a loop that sets two flags\<close>
  "flags_each f [] = Inr (False, False)"
| "flags_each f (x # xs) =
     bindE (f x) (\<lambda>b. bindE (flags_each f xs) (\<lambda>bs. Inr (fst b \<or> fst bs, snd b \<or> snd bs)))"

text \<open>
  Inside a \<^verbatim>\<open>try\<close> whose handler is \<^verbatim>\<open>pass\<close>, a step yields the flag it has set and whether an
  exception ended the block there.
\<close>

definition then_do :: "bool \<times> bool \<Rightarrow> bool \<times> bool \<Rightarrow> bool \<times> bool" where
  "then_do a b = (if snd a then a else (fst a \<or> fst b, snd b))"

fun loop_flag :: "('a \<Rightarrow> bool \<times> bool) \<Rightarrow> 'a list \<Rightarrow> bool \<times> bool" where
  "loop_flag f [] = (False, False)"
| "loop_flag f (x # xs) = then_do (f x) (loop_flag f xs)"

definition for_in :: "exn + yv \<Rightarrow> (yv \<Rightarrow> bool \<times> bool) \<Rightarrow> bool \<times> bool" where
  \<comment> \<open>\<^verbatim>\<open>for x in value: body\<close>\<close>
  "for_in m f = (case bindE m py_iter of Inl _ \<Rightarrow> (False, True) | Inr xs \<Rightarrow> loop_flag f xs)"

definition if_truthy :: "exn + yv \<Rightarrow> bool \<times> bool" where
  \<comment> \<open>\<^verbatim>\<open>if value: flag = True\<close>\<close>
  "if_truthy m = (case m of Inl _ \<Rightarrow> (False, True) | Inr v \<Rightarrow> (truthy v, False))"

subsection \<open>Loading and extraction\<close>

definition has_non_comment :: "string \<Rightarrow> bool" where
  \<comment> \<open>\<^verbatim>\<open>any(l.strip() and not l.strip().startswith("#") for l in content.splitlines())\<close>\<close>
  "has_non_comment content =
     list_ex (\<lambda>l. strip l \<noteq> [] \<and> \<not> startswith (strip l) ''#'') (splitlines content)"

definition load_yaml :: "world \<Rightarrow> fsnode \<Rightarrow> string list \<Rightarrow> exn + yv list option" where
  \<comment> \<open>\<^verbatim>\<open>_load_yaml\<close>: \<^verbatim>\<open>YAMLError\<close>, \<^verbatim>\<open>FileNotFoundError\<close> and \<^verbatim>\<open>IOError\<close> give None\<close>
  "load_yaml w root path =
     (case lookup_path path root of
        Some (File (Undecodable m)) \<Rightarrow> Inl (UnicodeDecodeError m)
      | Some (File (Text content)) \<Rightarrow>
          (let stripped =
                 str_join [CHR 0x0A]
                   (filter (\<lambda>l. strip l \<noteq> [] \<and> \<not> startswith (strip l) ''#'') (splitlines content))
           in if strip stripped = [] then Inr None
              else (case yaml_safe_load_all w content of
                      None \<Rightarrow> Inr None
                    | Some docs \<Rightarrow> Inr (Some (filter (\<lambda>d. d \<noteq> YNone) docs))))
      | _ \<Rightarrow> Inr None)"

definition find_container_spec :: "yv \<Rightarrow> yv list" where
  \<comment> \<open>\<^verbatim>\<open>_find_container_spec\<close>: the \<^verbatim>\<open>try\<close> catches \<^verbatim>\<open>AttributeError\<close> and \<^verbatim>\<open>TypeError\<close>, the only
      exceptions these steps raise, and the containers added before one are kept\<close>
  "find_container_spec doc =
     (case py_get doc ''spec'' (YDict []) of Inl _ \<Rightarrow> [] | Inr spec \<Rightarrow>
      case py_get spec ''template'' (YDict []) of Inl _ \<Rightarrow> [] | Inr template \<Rightarrow>
      case py_get template ''spec'' (YDict []) of Inl _ \<Rightarrow> [] | Inr pod_spec \<Rightarrow>
      case bindE (py_get pod_spec ''containers'' (YList [])) py_iter of Inl _ \<Rightarrow> [] | Inr cs1 \<Rightarrow>
      case bindE (py_get spec ''containers'' (YList [])) py_iter of Inl _ \<Rightarrow> cs1 | Inr cs2 \<Rightarrow> cs1 @ cs2)"

definition pod_spec_of :: "yv \<Rightarrow> exn + yv" where
  \<comment> \<open>\<^verbatim>\<open>doc.get("spec", {}).get("template", {}).get("spec", {})\<close>\<close>
  "pod_spec_of doc =
     bindE (py_get doc ''spec'' (YDict [])) (\<lambda>spec.
     bindE (py_get spec ''template'' (YDict [])) (\<lambda>template.
     py_get template ''spec'' (YDict [])))"

definition k8s_dir :: "string list" where
  "k8s_dir = [''k8s'']"

definition is_yaml_name :: "string \<Rightarrow> bool" where
  "is_yaml_name fname = (endswith fname ''.yaml'' \<or> endswith fname ''.yml'')"

datatype loaded = Parsed "yv list" | ParseError | Skeleton

definition load_entry :: "world \<Rightarrow> fsnode \<Rightarrow> string \<Rightarrow> exn + loaded" where
  \<comment> \<open>the body of the loop over the YAML files of the directory\<close>
  "load_entry w root fname =
     bindE (load_yaml w root (k8s_dir @ [fname])) (\<lambda>docs.
       case docs of
         None \<Rightarrow> bindE (read_file root (k8s_dir @ [fname])) (\<lambda>content.
                   Inr (if has_non_comment content then ParseError else Skeleton))
       | Some ds \<Rightarrow> Inr (Parsed ds))"

fun load_entries :: "world \<Rightarrow> fsnode \<Rightarrow> string list \<Rightarrow> exn + (string \<times> loaded) list" where
  "load_entries w root [] = Inr []"
| "load_entries w root (f # fs) =
     bindE (load_entry w root f) (\<lambda>l. bindE (load_entries w root fs) (\<lambda>ls. Inr ((f, l) # ls)))"

definition parse_errors_of :: "(string \<times> loaded) list \<Rightarrow> string list" where
  "parse_errors_of ls = map fst (filter (\<lambda>e. snd e = ParseError) ls)"

definition yaml_files_of :: "(string \<times> loaded) list \<Rightarrow> yv list list" where
  \<comment> \<open>the values of the dictionary \<^verbatim>\<open>yaml_files\<close>\<close>
  "yaml_files_of ls = concat (map (\<lambda>e. case snd e of Parsed ds \<Rightarrow> [ds] | _ \<Rightarrow> []) ls)"

definition k8s_check_yaml :: "(string \<times> loaded) list \<Rightarrow> check" where
  \<comment> \<open>Check 1\<close>
  "k8s_check_yaml ls =
     (if parse_errors_of ls \<noteq> []
      then mk_check ''YAML parsing'' 3 False (''Parse errors in: '' @ str_join '', '' (parse_errors_of ls))
      else (let has_content = (0 < length (yaml_files_of ls))
            in mk_check ''YAML parsing'' 3 has_content (if has_content then [] else ''No YAML content found'')))"

subsection \<open>The manifest checks\<close>

fun resources_loop :: "yv list \<Rightarrow> exn + bool" where
  \<comment> \<open>the inner loop of Check 2; \<^verbatim>\<open>break\<close> leaves it at the first container with both\<close>
  "resources_loop [] = Inr False"
| "resources_loop (container # cs) =
     bindE (py_get container ''resources'' (YDict [])) (\<lambda>res.
     bindE (py_get res ''requests'' YNone) (\<lambda>requests.
       if truthy requests
       then bindE (py_get res ''limits'' YNone) (\<lambda>limits.
              if truthy limits then Inr True else resources_loop cs)
       else resources_loop cs))"

definition k8s_check_resources :: "yv list \<Rightarrow> exn + check" where
  \<comment> \<open>Check 2\<close>
  "k8s_check_resources all_docs =
     bindE (or_each (\<lambda>doc. resources_loop (find_container_spec doc)) all_docs) (\<lambda>has_resources.
     Inr (mk_check ''Resource requests and limits'' 1 has_resources []))"

definition k8s_check_probes :: "yv list \<Rightarrow> exn + check" where
  \<comment> \<open>Check 3\<close>
  "k8s_check_probes all_docs =
     bindE (flags_each (\<lambda>container.
                bindE (py_get container ''livenessProbe'' YNone) (\<lambda>l.
                bindE (py_get container ''readinessProbe'' YNone) (\<lambda>r. Inr (truthy l, truthy r))))
              (concat (map find_container_spec all_docs))) (\<lambda>flags.
     Inr (mk_check ''Liveness and readiness probes'' 1 (fst flags \<and> snd flags) []))"

definition k8s_check_hpa :: "yv list \<Rightarrow> exn + check" where
  \<comment> \<open>Check 4\<close>
  "k8s_check_hpa all_docs =
     bindE (or_each (\<lambda>doc.
              if is_kind doc ''HorizontalPodAutoscaler''
              then bindE (py_get doc ''spec'' (YDict [])) (\<lambda>spec.
                   bindE (py_get spec ''minReplicas'' YNone) (\<lambda>mn.
                     if truthy mn then bindE (py_get spec ''maxReplicas'' YNone) (\<lambda>mx. Inr (truthy mx))
                     else Inr False))
              else Inr False) all_docs) (\<lambda>has_hpa.
     Inr (mk_check ''HPA with min/max replicas'' 1 has_hpa []))"

definition anti_affinity_in :: "yv \<Rightarrow> bool" where
  \<comment> \<open>the body of the loop of Check 5, inside its \<^verbatim>\<open>try\<close>\<close>
  "anti_affinity_in doc =
     (case pod_spec_of doc of Inl _ \<Rightarrow> False | Inr pod_spec \<Rightarrow>
      case py_get pod_spec ''affinity'' (YDict []) of Inl _ \<Rightarrow> False | Inr affinity \<Rightarrow>
      case py_get affinity ''podAntiAffinity'' YNone of Inl _ \<Rightarrow> False | Inr a \<Rightarrow>
      case py_get pod_spec ''topologySpreadConstraints'' YNone of
        Inl _ \<Rightarrow> truthy a
      | Inr t \<Rightarrow> truthy a \<or> truthy t)"

definition k8s_check_anti_affinity :: "yv list \<Rightarrow> check" where
  \<comment> \<open>Check 5\<close>
  "k8s_check_anti_affinity all_docs =
     mk_check ''Anti-affinity or topology spread'' 1 (list_ex anti_affinity_in all_docs) []"

definition k8s_check_netpol :: "yv list \<Rightarrow> exn + check" where
  \<comment> \<open>Check 6\<close>
  "k8s_check_netpol all_docs =
     bindE (or_each (\<lambda>doc.
              if is_kind doc ''NetworkPolicy''
              then bindE (py_get doc ''spec'' (YDict [])) (\<lambda>spec.
                   bindE (py_get spec ''policyTypes'' (YList [])) (\<lambda>pt. py_str_in ''Ingress'' pt))
              else Inr False) all_docs) (\<lambda>has_netpol.
     Inr (mk_check ''NetworkPolicy restricts ingress'' 1 has_netpol []))"

fun sec_containers :: "yv list \<Rightarrow> bool \<times> bool" where
  \<comment> \<open>the loop over the containers in Check 7: the flags set before the first exception\<close>
  "sec_containers [] = (False, False)"
| "sec_containers (container # cs) =
     (case py_get container ''securityContext'' (YDict []) of Inl _ \<Rightarrow> (False, False) | Inr sc \<Rightarrow>
      case py_get sc ''runAsNonRoot'' YNone of Inl _ \<Rightarrow> (False, False) | Inr nr \<Rightarrow>
      case py_get sc ''readOnlyRootFilesystem'' YNone of
        Inl _ \<Rightarrow> (nr = YBool True, False)
      | Inr ro \<Rightarrow> (nr = YBool True \<or> fst (sec_containers cs), ro = YBool True \<or> snd (sec_containers cs)))"

definition sec_in :: "yv \<Rightarrow> bool \<times> bool" where
  \<comment> \<open>the body of the loop of Check 7, inside its \<^verbatim>\<open>try\<close>: (non-root, read-only)\<close>
  "sec_in doc =
     (case pod_spec_of doc of Inl _ \<Rightarrow> (False, False) | Inr pod_spec \<Rightarrow>
      case py_get pod_spec ''securityContext'' (YDict []) of Inl _ \<Rightarrow> (False, False) | Inr pod_sc \<Rightarrow>
      case py_get pod_sc ''runAsNonRoot'' YNone of Inl _ \<Rightarrow> (False, False) | Inr nr \<Rightarrow>
      case bindE (py_get pod_spec ''containers'' (YList [])) py_iter of
        Inl _ \<Rightarrow> (nr = YBool True, False)
      | Inr cs \<Rightarrow> (nr = YBool True \<or> fst (sec_containers cs), snd (sec_containers cs)))"

definition k8s_check_security :: "yv list \<Rightarrow> check" where
  \<comment> \<open>Check 7\<close>
  "k8s_check_security all_docs =
     (let has_non_root = list_ex (\<lambda>doc. fst (sec_in doc)) all_docs;
          has_read_only_fs = list_ex (\<lambda>doc. snd (sec_in doc)) all_docs;
          sec_score = (if has_non_root then 1 else 0) + (if has_read_only_fs then (1::int) else 0)
      in mk_check ''Security context (non-root, read-only fs)'' 2 (2 \<le> sec_score)
           (''non-root='' @ yes_no has_non_root @ '', readOnlyRootFs='' @ yes_no has_read_only_fs))"

definition image_flags :: "yv \<Rightarrow> exn + bool \<times> bool" where
  \<comment> \<open>one container in Check 8: (has an image, the image is untagged or \<^verbatim>\<open>:latest\<close>)\<close>
  "image_flags container =
     bindE (py_get container ''image'' (YStr [])) (\<lambda>image.
       if truthy image
       then (case image of
               YStr s \<Rightarrow> Inr (True, endswith s '':latest'' \<or> \<not> str_contains '':'' s)
             | _ \<Rightarrow> Inl (no_attribute image ''endswith''))
       else Inr (False, False))"

definition k8s_check_image :: "yv list \<Rightarrow> exn + check" where
  \<comment> \<open>Check 8\<close>
  "k8s_check_image all_docs =
     bindE (flags_each image_flags (concat (map find_container_spec all_docs))) (\<lambda>flags.
     Inr (mk_check ''Image tag not :latest'' 1 (fst flags \<and> \<not> snd flags)
            (if snd flags then ''Image uses :latest or has no tag'' else [])))"

definition configmap_ref_in :: "yv \<Rightarrow> bool" where
  \<comment> \<open>the body of the second loop of Check 9\<close>
  "configmap_ref_in doc =
     (case doc of
        YDict _ \<Rightarrow>
          fst (case pod_spec_of doc of
                 Inl _ \<Rightarrow> (False, True)
               | Inr pod_spec \<Rightarrow>
                   then_do
                     (for_in (py_get pod_spec ''containers'' (YList [])) (\<lambda>container.
                        then_do
                          (for_in (py_get container ''envFrom'' (YList [])) (\<lambda>env_from.
                             if_truthy (py_get env_from ''configMapRef'' YNone)))
                          (for_in (py_get container ''env'' (YList [])) (\<lambda>env_var.
                             case py_get env_var ''valueFrom'' (YDict []) of
                               Inl _ \<Rightarrow> (False, True)
                             | Inr vf \<Rightarrow>
                                 if truthy vf then if_truthy (py_get vf ''configMapKeyRef'' YNone)
                                 else (False, False)))))
                     (for_in (py_get pod_spec ''volumes'' (YList [])) (\<lambda>vol.
                        if_truthy (py_get vol ''configMap'' YNone))))
      | _ \<Rightarrow> False)"

definition k8s_check_configmap :: "yv list \<Rightarrow> check" where
  \<comment> \<open>Check 9\<close>
  "k8s_check_configmap all_docs =
     (let has_configmap = list_ex (\<lambda>doc. is_kind doc ''ConfigMap'') all_docs;
          has_configmap_ref = list_ex configmap_ref_in all_docs
      in mk_check ''ConfigMap referenced from deployment'' 1 (has_configmap \<and> has_configmap_ref)
           (''configmap='' @ yes_no has_configmap @ '', referenced='' @ yes_no has_configmap_ref))"

subsection \<open>The incident responses\<close>

definition incident_path :: "nat \<Rightarrow> string list" where
  "incident_path n = k8s_dir @ [''incident_responses'', ''scenario_'' @ str_nat n @ ''.md'']"

definition incident_check :: "world \<Rightarrow> nat \<Rightarrow> string \<Rightarrow> check" where
  \<comment> \<open>one round of the loop over the three scenarios, from the text of the scenario's file\<close>
  "incident_check w n raw =
     (let content = lower raw;
          max_pts = 4
      in if content = [] \<or> length (strip content) < 100
         then mk_check (''Incident '' @ str_nat n @ '': root cause + remediation'') max_pts False
                ''Response is empty or too short''
         else (let rc_matches = kw_matches w (kw_list w (''incident_'' @ str_nat n) ''root_cause'') content;
                   rem_matches = kw_matches w (kw_list w (''incident_'' @ str_nat n) ''remediation'') content;
                   score = (if 2 \<le> rc_matches then 2 else if 1 \<le> rc_matches then 1 else 0)
                         + (if 1 \<le> rem_matches then min rem_matches 2 else 0)
               in \<lparr>name = ''Incident '' @ str_nat n @ '': root cause + remediation'',
                   max_points = max_pts,
                   points_awarded = min score max_pts,
                   passed = (2 \<le> rc_matches \<and> 1 \<le> rem_matches),
                   details = ''root_cause_keywords='' @ str_int rc_matches
                             @ '', remediation_keywords='' @ str_int rem_matches\<rparr>))"

definition has_prevention :: "world \<Rightarrow> nat \<Rightarrow> string \<Rightarrow> bool" where
  "has_prevention w n raw =
     list_ex (\<lambda>kw. re_search w kw (lower raw)) (kw_list w (''incident_'' @ str_nat n) ''prevention'')"

definition k8s_check_prevention :: "world \<Rightarrow> string list \<Rightarrow> check" where
  \<comment> \<open>the last Check, from the texts of the three scenario files\<close>
  "k8s_check_prevention w raws =
     (let prevention_count =
            length (filter (\<lambda>p. has_prevention w (fst p) (snd p)) (zip [1, 2, 3] raws))
      in mk_check ''Prevention measures in incident responses'' 1 (2 \<le> prevention_count) [])"

definition kubernetes_validate :: "world \<Rightarrow> fsnode \<Rightarrow> bool \<Rightarrow> exn + check list" where
  \<comment> \<open>\<^verbatim>\<open>kubernetes_validator.validate\<close>; the variable \<^verbatim>\<open>deployment\<close> of the source is never read\<close>
  "kubernetes_validate w root quick =
     (if \<not> isdir root k8s_dir
      then Inr [mk_check ''K8s directory exists'' 3 False ''submission/k8s/ not found'']
      else
        bindE (load_entries w root (filter is_yaml_name (listdir root k8s_dir))) (\<lambda>ls.
        if quick then Inr [k8s_check_yaml ls]
        else
          (let all_docs = concat (yaml_files_of ls) in
           bindE (k8s_check_resources all_docs) (\<lambda>c2.
           bindE (k8s_check_probes all_docs) (\<lambda>c3.
           bindE (k8s_check_hpa all_docs) (\<lambda>c4.
           bindE (k8s_check_netpol all_docs) (\<lambda>c6.
           bindE (k8s_check_image all_docs) (\<lambda>c8.
           bindE (read_all root (map incident_path [1, 2, 3])) (\<lambda>raws.
           bindE (read_all root (map incident_path [1, 2, 3])) (\<lambda>raws2.
           Inr ([k8s_check_yaml ls, c2, c3, c4,
                 k8s_check_anti_affinity all_docs, c6,
                 k8s_check_security all_docs, c8,
                 k8s_check_configmap all_docs]
                @ map (\<lambda>p. incident_check w (fst p) (snd p)) (zip [1, 2, 3] raws)
                @ [k8s_check_prevention w raws2])))))))))))"

section \<open>The text normalizers\<close>

definition html_comment_rx :: matcher where
  \<comment> \<open>\<^verbatim>\<open><!--.*?-->\<close> with \<^verbatim>\<open>DOTALL\<close>\<close>
  "html_comment_rx = seq (lit ''<!--'') (seq (many_lazy (\<lambda>c. True)) (lit ''-->''))"

definition table_separator_rx :: matcher where
  \<comment> \<open>\<^verbatim>\<open>^\|[\s\-|]+\|$\<close>\<close>
  "table_separator_rx =
     seq (lit ''|'') (seq (some (\<lambda>c. is_space c \<or> c = CHR ''-'' \<or> c = CHR ''|''))
       (seq (lit ''|'') at_end))"

definition empty_row_rx :: matcher where
  \<comment> \<open>\<^verbatim>\<open>^\|\s*\|\s*\|\s*\|\s*\|$\<close>\<close>
  "empty_row_rx =
     seq (lit ''|'') (seq (many is_space) (seq (lit ''|'') (seq (many is_space) (seq (lit ''|'')
       (seq (many is_space) (seq (lit ''|'') (seq (many is_space) (seq (lit ''|'') at_end))))))))"

definition md_keep :: "string \<Rightarrow> bool" where
  \<comment> \<open>the lines the loop of \<^verbatim>\<open>_strip_md_template\<close> appends\<close>
  "md_keep line =
     (let stripped = strip line
      in \<not> startswith stripped ''#''
         \<and> \<not> match table_separator_rx stripped
         \<and> \<not> match empty_row_rx stripped
         \<and> stripped \<noteq> ''-'')"

definition strip_md_template :: "string \<Rightarrow> string" where
  \<comment> \<open>\<^verbatim>\<open>_strip_md_template\<close> of \<^verbatim>\<open>document_validator.py\<close> and \<^verbatim>\<open>shell_validator.py\<close>\<close>
  "strip_md_template content =
     str_join [CHR 0x0A] (filter md_keep (splitlines (re_sub html_comment_rx content)))"

definition md_keep_pipeline :: "string \<Rightarrow> bool" where
  "md_keep_pipeline line =
     (let stripped = strip line
      in \<not> startswith stripped ''#''
         \<and> \<not> match table_separator_rx stripped
         \<and> stripped \<noteq> ''-'')"

definition strip_md_template_pipeline :: "string \<Rightarrow> string" where
  \<comment> \<open>\<^verbatim>\<open>_strip_md_template\<close> of \<^verbatim>\<open>pipeline_validator.py\<close>, without the rule for empty rows\<close>
  "strip_md_template_pipeline content =
     str_join [CHR 0x0A] (filter md_keep_pipeline (splitlines (re_sub html_comment_rx content)))"

definition shell_comment_rx :: matcher where
  \<comment> \<open>\<^verbatim>\<open>\s+#\s.*$\<close>\<close>
  "shell_comment_rx =
     seq (some is_space) (seq (lit ''#'') (seq (one is_space) (seq (many dot) at_end)))"

definition strip_shell_comments :: "string \<Rightarrow> string" where
  \<comment> \<open>\<^verbatim>\<open>_strip_shell_comments\<close>\<close>
  "strip_shell_comments content =
     str_join [CHR 0x0A]
       (map (re_sub shell_comment_rx)
          (filter (\<lambda>line. \<not> startswith (strip line) ''#'') (splitlines content)))"

section \<open>shell\_validator.py\<close>

definition has_substantial_code :: "string \<Rightarrow> nat \<Rightarrow> bool" where
  \<comment> \<open>\<^verbatim>\<open>_has_substantial_code\<close>\<close>
  "has_substantial_code content min_lines =
     (min_lines \<le> length
        (filter (\<lambda>l. strip l \<noteq> [] \<and> \<not> startswith (strip l) ''#''
                     \<and> lower (strip l) \<noteq> ''pass'' \<and> \<not> str_contains ''todo'' (lower l))
           (splitlines content)))"

definition run_shellcheck :: "world \<Rightarrow> string list \<Rightarrow> bool" where
  \<comment> \<open>\<^verbatim>\<open>_run_shellcheck\<close>\<close>
  "run_shellcheck w filepath =
     (case shellcheck w filepath of
        Returned returncode \<Rightarrow> returncode = 0
      | FileNotFoundError \<Rightarrow> True
      | TimeoutExpired \<Rightarrow> True)"

definition has_shebang :: "string \<Rightarrow> bool" where
  "has_shebang content = startswith (strip content) ''#!/''"

definition has_set_options :: "string \<Rightarrow> bool" where
  "has_set_options content = (str_contains ''set -e'' content \<or> str_contains ''set -euo pipefail'' content)"

definition sh_files :: "fsnode \<Rightarrow> string list list" where
  \<comment> \<open>the paths of the shell scripts under \<^verbatim>\<open>network\<close> and \<^verbatim>\<open>edge\<close>\<close>
  "sh_files root =
     concat (map (\<lambda>subdir.
                    if \<not> isdir root [subdir] then []
                    else map (\<lambda>fname. [subdir, fname])
                           (filter (\<lambda>fname. endswith fname ''.sh'') (listdir root [subdir])))
               [''network'', ''edge''])"

definition non_comment_count :: "string \<Rightarrow> nat" where
  "non_comment_count content =
     length (filter (\<lambda>l. strip l \<noteq> [] \<and> \<not> startswith (strip l) ''#'') (splitlines content))"

definition sh_check_shellcheck :: "world \<Rightarrow> (string list \<times> string) list \<Rightarrow> check" where
  \<comment> \<open>Check 1, from the scripts and their texts\<close>
  "sh_check_shellcheck w scripts =
     (let with_content = filter (\<lambda>p. \<not> non_comment_count (snd p) < 5) scripts;
          has_content_scripts = length with_content;
          shellcheck_results = map (\<lambda>p. (last (fst p), run_shellcheck w (fst p))) with_content;
          failed_scripts = map fst (filter (\<lambda>r. \<not> snd r) shellcheck_results)
      in if has_content_scripts = 0
         then mk_check ''shellcheck passes on .sh files'' 2 False ''No shell scripts with content found''
         else if failed_scripts \<noteq> []
         then mk_check ''shellcheck passes on .sh files'' 2 False
                (''Failed: '' @ str_join '', '' failed_scripts)
         else mk_check ''shellcheck passes on .sh files'' 2 True [])"

definition sh_check_py_syntax :: "world \<Rightarrow> string \<Rightarrow> check" where
  \<comment> \<open>Check 2\<close>
  "sh_check_py_syntax w camera_content =
     (let py_valid = (camera_content \<noteq> [] \<and> (case ast_parse w camera_content of Inl _ \<Rightarrow> False | Inr _ \<Rightarrow> True))
      in mk_check ''Python syntax valid (camera_discovery.py)'' 1 py_valid [])"

definition lit_ci :: "string \<Rightarrow> matcher" where
  \<comment> \<open>a literal under \<^verbatim>\<open>re.IGNORECASE\<close>\<close>
  "lit_ci p s =
     (if length p \<le> length s \<and> lower (take (length p) s) = lower p then [drop (length p) s] else [])"

definition drop_policy_rx :: matcher where
  \<comment> \<open>\<^verbatim>\<open>(policy\s+(input|forward)\s+drop|-P\s+(INPUT|FORWARD)\s+DROP)\<close> with \<^verbatim>\<open>IGNORECASE\<close>\<close>
  "drop_policy_rx =
     alt (seq (lit_ci ''policy'') (seq (some is_space) (seq (alt (lit_ci ''input'') (lit_ci ''forward''))
            (seq (some is_space) (lit_ci ''drop'')))))
         (seq (lit_ci ''-P'') (seq (some is_space) (seq (alt (lit_ci ''INPUT'') (lit_ci ''FORWARD''))
            (seq (some is_space) (lit_ci ''DROP'')))))"

definition sh_check_drop :: "string \<Rightarrow> check" where
  \<comment> \<open>Check 3, from the text of \<^verbatim>\<open>firewall_rules.sh\<close>\<close>
  "sh_check_drop firewall_raw =
     mk_check ''Firewall: default DROP policy'' 3
       (search drop_policy_rx (strip_shell_comments firewall_raw)) []"

definition sh_check_firewall :: "string \<Rightarrow> check" where
  \<comment> \<open>Check 4\<close>
  "sh_check_firewall firewall_raw =
     (let firewall_content = strip_shell_comments firewall_raw;
          fw_lower = lower firewall_content;
          substantial = has_substantial_code firewall_raw 8;
          rtsp = (substantial \<and> search (alt (lit ''554'') (lit ''rtsp'')) fw_lower
                  \<and> search (alt (lit ''camera'') (alt (lit ''10.50.20'') (lit ''eno2''))) fw_lower);
          https = (substantial \<and> search (lit ''443'') firewall_content
                   \<and> search (alt (lit ''output'') (alt (lit ''outbound'') (lit ''established''))) fw_lower);
          ssh = (substantial \<and> search (lit ''22'') firewall_content
                 \<and> search (alt (lit ''10.50.1.'') (alt (lit ''management'') (lit ''mgmt''))) fw_lower);
          fw_score = (if rtsp then 1 else 0) + (if https then 1 else 0) + (if ssh then (1::int) else 0);
          fw_details = (if rtsp then [''RTSP from camera VLAN''] else [])
                     @ (if https then [''HTTPS outbound''] else [])
                     @ (if ssh then [''SSH from management''] else [])
      in mk_check ''Firewall: RTSP, HTTPS, SSH, camera isolation'' 3 (2 \<le> fw_score)
           (if fw_details \<noteq> [] then ''Found: '' @ str_join '', '' fw_details else ''Missing firewall rules''))"

definition sh_check_setup :: "string \<Rightarrow> check" where
  \<comment> \<open>Check 5, from the text of \<^verbatim>\<open>setup.sh\<close>\<close>
  "sh_check_setup setup_raw =
     (let setup_lower = lower (strip_shell_comments setup_raw);
          substantial = has_substantial_code setup_raw 10;
          docker = (substantial \<and> any_in [''apt-get install.*docker'', ''docker-ce'', ''install docker'',
                                           ''docker.io''] setup_lower);
          ntp = (substantial \<and> any_in [''ntp'', ''chrony'', ''timedatectl'', ''timesyncd''] setup_lower);
          logrot = (substantial \<and> any_in [''logrotate'', ''log rotation'', ''log-rotate'', ''maxsize'',
                                           ''rotate ''] setup_lower);
          systemd = (substantial \<and> any_in [''systemctl'', ''systemd'', ''.service'', ''wantedby''] setup_lower);
          errors = (has_set_options setup_raw \<and> has_substantial_code setup_raw 10);
          setup_score = (if docker then 1 else 0) + (if ntp then 1 else 0) + (if logrot then 1 else 0)
                      + (if systemd then 1 else 0) + (if errors then (1::int) else 0);
          setup_details = (if docker then [''Docker''] else []) @ (if ntp then [''NTP''] else [])
                        @ (if logrot then [''log rotation''] else [])
                        @ (if systemd then [''systemd service''] else [])
                        @ (if errors then [''error handling''] else [])
      in mk_check ''setup.sh: Docker, NTP, log rotation, systemd, error handling'' 5 (3 \<le> setup_score)
           (''Found: '' @ str_join '', '' setup_details @ '' ('' @ str_int setup_score @ ''/5)''))"

definition is_real_stmt :: "stmt \<Rightarrow> bool" where
  \<comment> \<open>not \<^verbatim>\<open>pass\<close> and not an expression statement that is a string constant\<close>
  "is_real_stmt s = (case s of Pass \<Rightarrow> False | Expr (StrConstant _) \<Rightarrow> False | _ \<Rightarrow> True)"

definition is_implemented :: "stmt list \<Rightarrow> bool" where
  \<comment> \<open>\<^verbatim>\<open>len(real_stmts) > 0\<close>\<close>
  "is_implemented body = (0 < length (filter is_real_stmt body))"

fun dict_set :: "string \<Rightarrow> 'v \<Rightarrow> (string \<times> 'v) list \<Rightarrow> (string \<times> 'v) list" where
  \<comment> \<open>\<^verbatim>\<open>d[k] = v\<close> on a dictionary held as the list of its items\<close>
  "dict_set k v [] = [(k, v)]"
| "dict_set k v (kv # kvs) = (if fst kv = k then (k, v) # kvs else kv # dict_set k v kvs)"

fun func_bodies :: "node list \<Rightarrow> (string \<times> bool) list \<Rightarrow> (string \<times> bool) list" where
  \<comment> \<open>the loop over \<^verbatim>\<open>ast.walk(tree)\<close> that fills \<^verbatim>\<open>func_bodies\<close>\<close>
  "func_bodies [] d = d"
| "func_bodies (StmtNode (FunctionDef fname body) # ns) d =
     func_bodies ns (dict_set fname (is_implemented body) d)"
| "func_bodies (n # ns) d = func_bodies ns d"

definition sh_check_camera :: "world \<Rightarrow> string \<Rightarrow> check" where
  \<comment> \<open>Check 6, from the text of \<^verbatim>\<open>camera_discovery.py\<close>\<close>
  "sh_check_camera w camera_content =
     (let has_implemented_funcs =
            (camera_content \<noteq> []
             \<and> (case ast_parse w camera_content of
                   Inl _ \<Rightarrow> False
                 | Inr tree \<Rightarrow> list_ex snd (func_bodies tree [])));
          xml = (has_implemented_funcs
                 \<and> any_in [''.parse('', ''.fromstring('', ''findall('', ''find('', ''iter(''] camera_content);
          json = (has_implemented_funcs \<and> any_in [''json.dump('', ''json.dumps(''] camera_content);
          tmo = (has_implemented_funcs
                 \<and> any_in [''timeout'', ''TimeoutError'', ''socket.timeout''] camera_content);
          cam_score = (if xml then 1 else 0) + (if json then 1 else 0) + (if tmo then (1::int) else 0);
          cam_details = (if xml then [''XML parsing''] else []) @ (if json then [''JSON output''] else [])
                      @ (if tmo then [''timeout handling''] else [])
      in mk_check ''camera_discovery.py: XML parsing, JSON output, timeout'' 3 (2 \<le> cam_score)
           (if cam_details \<noteq> [] then ''Found: '' @ str_join '', '' cam_details
            else ''Skeleton not implemented''))"

definition sh_check_site_plan :: "world \<Rightarrow> string \<Rightarrow> check" where
  \<comment> \<open>Check 7, from the text of \<^verbatim>\<open>site_plan.md\<close>\<close>
  "sh_check_site_plan w site_plan_raw =
     (let site_plan0 = lower (strip_md_template site_plan_raw);
          site_content_lines = filter (\<lambda>l. strip l \<noteq> []) (splitlines site_plan0);
          site_plan = (if length site_content_lines < 5 then [] else site_plan0);
          vlan_matches = kw_matches w (kw_list w ''site_plan_vlan'' ''keywords'') site_plan;
          ip_matches = kw_matches w (kw_list w ''site_plan_ip'' ''keywords'') site_plan;
          site_score = (if 2 \<le> vlan_matches then 1 else 0) + (if 2 \<le> ip_matches then (1::int) else 0)
      in mk_check ''site_plan.md: VLAN design, IP scheme, isolation'' 2 (1 \<le> site_score)
           (''VLAN keywords='' @ str_int vlan_matches @ '', IP keywords='' @ str_int ip_matches))"

definition sh_check_golden :: "world \<Rightarrow> string \<Rightarrow> check" where
  \<comment> \<open>Check 8, from the text of \<^verbatim>\<open>golden_image.md\<close>\<close>
  "sh_check_golden w golden_raw =
     (let gi_matches = kw_matches w (kw_list w ''golden_image'' ''keywords'')
                         (lower (strip_md_template golden_raw))
      in mk_check ''golden_image.md: creation process, patching strategy'' 1 (2 \<le> gi_matches)
           (''Concept keywords matched: '' @ str_int gi_matches))"

definition shell_validate :: "world \<Rightarrow> fsnode \<Rightarrow> bool \<Rightarrow> exn + check list" where
  \<comment> \<open>\<^verbatim>\<open>shell_validator.validate\<close>\<close>
  "shell_validate w root quick =
     bindE (read_all root (sh_files root)) (\<lambda>contents.
     bindE (read_file root [''network'', ''camera_discovery.py'']) (\<lambda>camera_content.
     if quick
     then Inr [sh_check_shellcheck w (zip (sh_files root) contents), sh_check_py_syntax w camera_content]
     else
       bindE (read_file root [''network'', ''firewall_rules.sh'']) (\<lambda>firewall_raw.
       bindE (read_file root [''edge'', ''setup.sh'']) (\<lambda>setup_raw.
       bindE (read_file root [''network'', ''site_plan.md'']) (\<lambda>site_plan_raw.
       bindE (read_file root [''edge'', ''golden_image.md'']) (\<lambda>golden_raw.
       Inr [sh_check_shellcheck w (zip (sh_files root) contents),
            sh_check_py_syntax w camera_content,
            sh_check_drop firewall_raw,
            sh_check_firewall firewall_raw,
            sh_check_setup setup_raw,
            sh_check_camera w camera_content,
            sh_check_site_plan w site_plan_raw,
            sh_check_golden w golden_raw]))))))"

section \<open>pipeline\_validator.py\<close>

definition strip_yaml_comments :: "string \<Rightarrow> string" where
  \<comment> \<open>\<^verbatim>\<open>_strip_yaml_comments\<close>\<close>
  "strip_yaml_comments content =
     str_join [CHR 0x0A] (filter (\<lambda>line. \<not> startswith (strip line) ''#'') (splitlines content))"

definition pl_check_syntax :: "world \<Rightarrow> string \<Rightarrow> check" where
  \<comment> \<open>Check 1, from the text of \<^verbatim>\<open>pipeline.yaml\<close>\<close>
  "pl_check_syntax w content =
     (if strip content = []
      then mk_check ''Pipeline YAML syntax'' 1 False ''pipeline.yaml is empty''
      else (let non_comment =
                  str_join [CHR 0x0A]
                    (filter (\<lambda>l. strip l \<noteq> [] \<and> \<not> startswith (strip l) ''#'') (splitlines content))
            in if strip non_comment = []
               then mk_check ''Pipeline YAML syntax'' 1 False ''pipeline.yaml has no YAML content''
               else (case yaml_safe_load w content of
                       Inr parsed \<Rightarrow> mk_check ''Pipeline YAML syntax'' 1 (parsed \<noteq> YNone) []
                     | Inl e \<Rightarrow> mk_check ''Pipeline YAML syntax'' 1 False (''YAML error: '' @ e))))"

definition pl_check_stages :: "string \<Rightarrow> check" where
  \<comment> \<open>Check 2, from the lower-cased text without comment lines\<close>
  "pl_check_stages content_lower =
     (let has_build = search (lit ''build'') content_lower;
          has_test = search (lit ''test'') content_lower;
          has_deploy = search (lit ''deploy'') content_lower;
          stage_score0 = (if has_build then 1 else 0) + (if has_test then 1 else 0)
                       + (if has_deploy then (1::int) else 0);
          order_ok =
            (\<not> (has_build \<and> has_test \<and> str_find ''build'' content_lower > str_find ''test'' content_lower)
             \<and> \<not> (has_test \<and> has_deploy
                    \<and> str_find ''test'' content_lower > str_find ''deploy'' content_lower));
          stage_score = (if \<not> order_ok then max (stage_score0 - 1) 0 else stage_score0)
      in \<lparr>name = ''Build + test + deploy stages in order'',
          max_points = 3,
          points_awarded = stage_score,
          passed = (3 \<le> stage_score),
          details = ''build='' @ yes_no has_build @ '', test='' @ yes_no has_test
                    @ '', deploy='' @ yes_no has_deploy
                    @ '', order='' @ (if order_ok then ''correct'' else ''incorrect'')\<rparr>)"

definition pl_check_ecr :: "string \<Rightarrow> check" where
  \<comment> \<open>Check 3\<close>
  "pl_check_ecr content_lower =
     (let ecr = any_in [''ecr'', ''docker push'', ''docker build'', ''container registry''] content_lower;
          staging = any_in [''staging'', ''stage''] content_lower;
          gate = any_in [''manual'', ''approval'', ''approve'', ''environment.*protection'',
                         ''required_reviewers'', ''gate'', ''confirm''] content_lower;
          ecr_score = (if ecr then 1 else 0) + (if staging then 1 else 0) + (if gate then (1::int) else 0);
          ecr_details = (if ecr then [''ECR/container push''] else [])
                      @ (if staging then [''staging deploy''] else [])
                      @ (if gate then [''manual approval gate''] else [])
      in \<lparr>name = ''ECR push, staging deploy, prod manual gate'',
          max_points = 3,
          points_awarded = ecr_score,
          passed = (2 \<le> ecr_score),
          details = (if ecr_details \<noteq> [] then ''Found: '' @ str_join '', '' ecr_details
                     else ''Missing deployment stages'')\<rparr>)"

definition pl_check_rollback :: "string \<Rightarrow> check" where
  \<comment> \<open>Check 4\<close>
  "pl_check_rollback content_lower =
     mk_check ''Rollback/failure handling in pipeline'' 1
       (any_in [''rollback'', ''roll back'', ''undo'', ''revert'', ''failure'', ''on_failure'', ''if.*fail'']
          content_lower) []"

definition pl_check_monitoring :: "world \<Rightarrow> string \<Rightarrow> check" where
  \<comment> \<open>Check 6, from the text of \<^verbatim>\<open>monitoring_setup.md\<close>\<close>
  "pl_check_monitoring w monitoring_raw =
     (let monitoring_content = lower (strip_md_template_pipeline monitoring_raw);
          metrics = (3 \<le> kw_matches w (kw_list w ''monitoring_setup_metrics'' ''keywords'') monitoring_content);
          slos = (2 \<le> kw_matches w (kw_list w ''monitoring_setup_slo'' ''keywords'') monitoring_content);
          alert_matches = kw_matches w (kw_list w ''monitoring_setup_alerting'' ''keywords'') monitoring_content;
          esc_matches = kw_matches w (kw_list w ''monitoring_setup_escalation'' ''keywords'') monitoring_content;
          alerting = (2 \<le> alert_matches \<and> 1 \<le> esc_matches);
          mon_score = (if metrics then 1 else 0) + (if slos then 1 else 0) + (if alerting then (1::int) else 0);
          mon_details = (if metrics then [''metrics''] else []) @ (if slos then [''SLOs''] else [])
                      @ (if alerting then [''alerting + escalation''] else [])
      in \<lparr>name = ''monitoring_setup.md: metrics, SLOs, alerting, escalation'',
          max_points = 3,
          points_awarded = mon_score,
          passed = (2 \<le> mon_score),
          details = (if mon_details \<noteq> [] then ''Found: '' @ str_join '', '' mon_details
                     else ''Insufficient monitoring detail'')\<rparr>)"

definition pipeline_validate :: "world \<Rightarrow> fsnode \<Rightarrow> bool \<Rightarrow> exn + check list" where
  \<comment> \<open>\<^verbatim>\<open>pipeline_validator.validate\<close>\<close>
  "pipeline_validate w root quick =
     bindE (read_file root [''cicd'', ''pipeline.yaml'']) (\<lambda>content.
     if quick then Inr [pl_check_syntax w content]
     else
       (let content_lower = lower (strip_yaml_comments content) in
        bindE (read_file root [''cicd'', ''monitoring_setup.md'']) (\<lambda>monitoring_raw.
        Inr [pl_check_syntax w content,
             pl_check_stages content_lower,
             pl_check_ecr content_lower,
             pl_check_rollback content_lower,
             pl_check_monitoring w monitoring_raw])))"

section \<open>python\_validator.py\<close>

definition has_argparse :: "node list \<Rightarrow> bool" where
  \<comment> \<open>\<^verbatim>\<open>_has_argparse\<close>\<close>
  "has_argparse tree =
     list_ex (\<lambda>n. case n of
                     ExprNode (Attribute (Name i) _) \<Rightarrow> i = ''argparse''
                   | ExprNode (Call (Attribute _ attr)) \<Rightarrow> attr = ''ArgumentParser''
                   | _ \<Rightarrow> False) tree"

definition has_subparsers :: "string \<Rightarrow> bool" where
  \<comment> \<open>\<^verbatim>\<open>_has_subparsers\<close>\<close>
  "has_subparsers content =
     (str_contains ''add_subparsers'' content \<or> str_contains ''subcommand'' (lower content))"

definition implemented_funcs :: "node list \<Rightarrow> string list" where
  \<comment> \<open>the members of the set \<^verbatim>\<open>implemented_funcs\<close>\<close>
  "implemented_funcs tree =
     concat (map (\<lambda>n. case n of
                         StmtNode (FunctionDef fname body) \<Rightarrow> (if is_implemented body then [fname] else [])
                       | _ \<Rightarrow> []) tree)"

definition py_check_deploy :: "string \<Rightarrow> node list \<Rightarrow> check" where
  \<comment> \<open>the full-mode Check, from the text of \<^verbatim>\<open>deploy.py\<close> and its tree\<close>
  "py_check_deploy content tree =
     (let argparse = (has_argparse tree
                      \<and> (str_contains ''add_argument'' content \<or> str_contains ''add_subparsers'' content));
          rollback = list_ex (\<lambda>fn. str_contains ''rollback'' (lower fn)) (implemented_funcs tree);
          health = list_ex (\<lambda>fn. str_contains ''health'' (lower fn)) (implemented_funcs tree);
          score = 1 + (if argparse then 1 else 0) + (if rollback then 1 else 0)
                + (if health then (1::int) else 0);
          details = [''valid syntax'']
                  @ (if argparse then [''argparse''] @ (if has_subparsers content then [''subcommands''] else [])
                     else [])
                  @ (if rollback then [''rollback function''] else [])
                  @ (if health then [''healthcheck function''] else [])
      in \<lparr>name = ''deploy.py: valid Python, argparse, rollback, healthcheck'',
          max_points = 4,
          points_awarded = score,
          passed = (3 \<le> score),
          details = ''Found: '' @ str_join '', '' details\<rparr>)"

definition python_validate :: "world \<Rightarrow> fsnode \<Rightarrow> bool \<Rightarrow> exn + check list" where
  \<comment> \<open>\<^verbatim>\<open>python_validator.validate\<close>\<close>
  "python_validate w root quick =
     bindE (read_file root [''cicd'', ''deploy.py'']) (\<lambda>content.
     if content = [] then Inr [mk_check ''deploy.py exists'' 4 False ''File not found or empty'']
     else (case ast_parse w content of
             Inl e \<Rightarrow> Inr [mk_check ''deploy.py: valid Python syntax'' 4 False (''SyntaxError: '' @ e)]
           | Inr tree \<Rightarrow>
               if quick then Inr [mk_check ''deploy.py: valid Python syntax'' 1 True []]
               else Inr [py_check_deploy content tree]))"

section \<open>document\_validator.py\<close>

definition count_keyword_matches :: "world \<Rightarrow> string \<Rightarrow> string list \<Rightarrow> int" where
  \<comment> \<open>\<^verbatim>\<open>_count_keyword_matches\<close>\<close>
  "count_keyword_matches w content kws = kw_matches w kws (lower content)"

definition capped_check :: "string \<Rightarrow> string \<Rightarrow> int \<Rightarrow> check" where
  \<comment> \<open>Checks 1 and 2: a point for each matched keyword up to three\<close>
  "capped_check n label matches =
     \<lparr>name = n, max_points = 3, points_awarded = min matches 3, passed = (3 \<le> matches),
      details = label @ str_int matches\<rparr>"

definition doc_check_mtu :: "world \<Rightarrow> string \<Rightarrow> check" where
  "doc_check_mtu w rca_content =
     capped_check ''RCA: identifies MTU as root cause'' ''MTU-related keywords matched: ''
       (count_keyword_matches w rca_content (kw_list w ''debug_rca_mtu'' ''keywords''))"

definition doc_check_vpn :: "world \<Rightarrow> string \<Rightarrow> check" where
  "doc_check_vpn w rca_content =
     capped_check ''RCA: identifies VPN tunnel + packet fragmentation'' ''VPN-related keywords matched: ''
       (count_keyword_matches w rca_content (kw_list w ''debug_rca_vpn'' ''keywords''))"

definition doc_check_timeline :: "world \<Rightarrow> string \<Rightarrow> check" where
  \<comment> \<open>Check 3\<close>
  "doc_check_timeline w rca_content =
     (let timeline_matches = count_keyword_matches w rca_content (kw_list w ''debug_timeline'' ''keywords'')
      in mk_check ''RCA: correct timeline reconstruction'' 1 (3 \<le> timeline_matches)
           (''Timeline keywords matched: '' @ str_int timeline_matches))"

definition doc_check_remediation :: "world \<Rightarrow> string \<Rightarrow> check" where
  \<comment> \<open>Check 4, from the text of \<^verbatim>\<open>remediation.sh\<close>\<close>
  "doc_check_remediation w remediation_content =
     (let rem_stripped =
            str_join [CHR 0x0A]
              (filter (\<lambda>l. strip l \<noteq> [] \<and> \<not> startswith (strip l) ''#'') (splitlines remediation_content));
          rem_lower = lower rem_stripped;
          has_code = (3 \<le> length (filter (\<lambda>l. strip l \<noteq> []) (splitlines rem_stripped)));
          mtu = (has_code \<and> search (lit ''mtu'') rem_lower
                 \<and> search (alt (lit ''1500'') (alt (lit ''ip link'') (alt (lit ''ifconfig'') (lit ''netplan''))))
                      rem_lower);
          shebang = (has_code \<and> startswith (strip remediation_content) ''#!/''
                     \<and> str_contains ''set -e'' remediation_content);
          verify = (has_code \<and> any_in [''verify'', ''check'', ''test'', ''ip link show'', ''ping''] rem_lower);
          rem_score0 = (if mtu then 1 else 0) + (if shebang then 1 else 0) + (if verify then (1::int) else 0);
          warned = (0 < rem_score0
                    \<and> (case shellcheck w [''debug'', ''remediation.sh''] of
                          Returned returncode \<Rightarrow> returncode \<noteq> 0
                        | FileNotFoundError \<Rightarrow> False
                        | TimeoutExpired \<Rightarrow> False));
          rem_score = (if warned then max (rem_score0 - 1) 0 else rem_score0);
          rem_details = (if mtu then [''sets MTU''] else [])
                      @ (if shebang then [''shebang + error handling''] else [])
                      @ (if verify then [''verification step''] else [])
                      @ (if warned then [''shellcheck warnings''] else [])
      in \<lparr>name = ''remediation.sh: sets MTU, passes shellcheck'',
          max_points = 3,
          points_awarded = rem_score,
          passed = (2 \<le> rem_score),
          details = (if rem_details \<noteq> [] then ''Found: '' @ str_join '', '' rem_details
                     else ''Script not implemented'')\<rparr>)"

definition action_item_rx :: matcher where
  \<comment> \<open>\<^verbatim>\<open>action.item\<close>\<close>
  "action_item_rx = seq (lit ''action'') (seq (one dot) (lit ''item''))"

definition doc_check_postmortem :: "world \<Rightarrow> string \<Rightarrow> check" where
  \<comment> \<open>Check 5, from the text of \<^verbatim>\<open>postmortem.md\<close>\<close>
  "doc_check_postmortem w postmortem_raw =
     (let postmortem_content = lower (strip_md_template postmortem_raw);
          pm_matches = count_keyword_matches w postmortem_content (kw_list w ''postmortem_sections'' ''keywords'');
          has_action_items = (search action_item_rx (lower postmortem_raw)
                              \<and> 200 < length (strip postmortem_content));
          pm_score = (if 4 \<le> pm_matches then 1 else 0) + (if has_action_items then (1::int) else 0)
      in \<lparr>name = ''postmortem.md: all sections, action items'',
          max_points = 2,
          points_awarded = pm_score,
          passed = (1 \<le> pm_score),
          details = ''Sections matched: '' @ str_int pm_matches
                    @ '', action items: '' @ yes_no has_action_items\<rparr>)"

definition doc_check_product :: "world \<Rightarrow> string \<Rightarrow> check" where
  \<comment> \<open>Check 6, from the text of \<^verbatim>\<open>product_recommendations.md\<close>\<close>
  "doc_check_product w product_raw =
     (let mon_matches = count_keyword_matches w (lower (strip_md_template product_raw))
                          (kw_list w ''monitoring_recommendations'' ''keywords'');
          prod_score = min mon_matches 3
      in \<lparr>name = ''product_recommendations.md: monitoring + automated detection'',
          max_points = 3,
          points_awarded = prod_score,
          passed = (2 \<le> prod_score),
          details = ''Monitoring/detection keywords matched: '' @ str_int mon_matches\<rparr>)"

definition document_validate :: "world \<Rightarrow> fsnode \<Rightarrow> bool \<Rightarrow> exn + check list" where
  \<comment> \<open>\<^verbatim>\<open>document_validator.validate\<close>\<close>
  "document_validate w root quick =
     bindE (read_file root [''debug'', ''root_cause_analysis.md'']) (\<lambda>rca_raw.
     bindE (read_file root [''debug'', ''remediation.sh'']) (\<lambda>remediation_content.
     bindE (read_file root [''debug'', ''postmortem.md'']) (\<lambda>postmortem_raw.
     bindE (read_file root [''debug'', ''product_recommendations.md'']) (\<lambda>product_raw.
     (let rca_content = lower (strip_md_template rca_raw) in
      if quick
      then Inr [doc_check_mtu w rca_content, doc_check_vpn w rca_content, doc_check_timeline w rca_content]
      else Inr [doc_check_mtu w rca_content, doc_check_vpn w rca_content, doc_check_timeline w rca_content,
                doc_check_remediation w remediation_content,
                doc_check_postmortem w postmortem_raw,
                doc_check_product w product_raw])))))"

section \<open>evaluate.py\<close>

datatype validator =
    terraform_validator
  | kubernetes_validator
  | shell_validator
  | pipeline_validator
  | python_validator
  | document_validator

fun validate :: "world \<Rightarrow> validator \<Rightarrow> fsnode \<Rightarrow> bool \<Rightarrow> exn + check list" where
  "validate w terraform_validator root quick = terraform_validate w root quick"
| "validate w kubernetes_validator root quick = kubernetes_validate w root quick"
| "validate w shell_validator root quick = shell_validate w root quick"
| "validate w pipeline_validator root quick = pipeline_validate w root quick"
| "validate w python_validator root quick = python_validate w root quick"
| "validate w document_validator root quick = document_validate w root quick"

fun validator_name :: "validator \<Rightarrow> string" where
  \<comment> \<open>\<^verbatim>\<open>validator.__name__\<close>\<close>
  "validator_name terraform_validator = ''evaluation.validators.terraform_validator''"
| "validator_name kubernetes_validator = ''evaluation.validators.kubernetes_validator''"
| "validator_name shell_validator = ''evaluation.validators.shell_validator''"
| "validator_name pipeline_validator = ''evaluation.validators.pipeline_validator''"
| "validator_name python_validator = ''evaluation.validators.python_validator''"
| "validator_name document_validator = ''evaluation.validators.document_validator''"

definition MODULE_VALIDATORS :: "(string \<times> validator list) list" where
  "MODULE_VALIDATORS =
     [(''terraform'', [terraform_validator]),
      (''k8s'', [kubernetes_validator]),
      (''network'', [shell_validator]),
      (''cicd'', [pipeline_validator, python_validator]),
      (''debug'', [document_validator])]"

definition VALID_MODULES :: "string list" where
  "VALID_MODULES = map fst MODULE_VALIDATORS"

definition validator_error :: "validator \<Rightarrow> exn \<Rightarrow> check" where
  \<comment> \<open>the Check the handler of \<^verbatim>\<open>run_module\<close> appends\<close>
  "validator_error v e =
     \<lparr>name = ''Validator error ('' @ validator_name v @ '')'',
      max_points = 0,
      points_awarded = 0,
      passed = False,
      details = exn_text e\<rparr>"

fun run_validators :: "(validator \<Rightarrow> exn + check list) \<Rightarrow> validator list \<Rightarrow> check list \<Rightarrow> check list" where
  \<comment> \<open>the loop of \<^verbatim>\<open>run_module\<close> over the validators, from the Checks collected so far\<close>
  "run_validators call [] checks = checks"
| "run_validators call (v # vs) checks =
     run_validators call vs
       (case call v of
          Inr result \<Rightarrow> checks @ result
        | Inl e \<Rightarrow> checks @ [validator_error v e])"

definition run_module :: "world \<Rightarrow> string \<Rightarrow> fsnode \<Rightarrow> bool \<Rightarrow> check list" where
  "run_module w module_name submission_dir quick =
     run_validators (\<lambda>v. validate w v submission_dir quick)
       (case map_of MODULE_VALIDATORS module_name of None \<Rightarrow> [] | Some vs \<Rightarrow> vs) []"

section \<open>scoring.py\<close>

definition MODULE_CONFIG :: "(string \<times> int) list" where
  \<comment> \<open>module and \<^verbatim>\<open>max_score\<close>; the \<^verbatim>\<open>weight\<close> of the source is never read\<close>
  "MODULE_CONFIG = [(''terraform'', 25), (''k8s'', 25), (''network'', 20), (''cicd'', 15), (''debug'', 15)]"

definition compute_module_score :: "check list \<Rightarrow> int" where
  "compute_module_score checks = sum_list (map points_awarded checks)"

definition score_to_band :: "int \<Rightarrow> string" where
  "score_to_band score =
     (if 80 \<le> score then ''Strong Hire''
      else if 65 \<le> score then ''Hire''
      else if 50 \<le> score then ''Borderline''
      else ''No Hire'')"

record module_result =
  score :: int
  module_max :: int
  checks :: "check list"

record evaluation_result =
  total_score :: int
  max_score :: int
  band :: string
  modules :: "(string \<times> module_result) list"

definition module_entry :: "(string \<times> check list) list \<Rightarrow> string \<times> int \<Rightarrow> string \<times> module_result" where
  \<comment> \<open>one round of the loop of \<^verbatim>\<open>compute_total_score\<close>\<close>
  "module_entry module_results cfg =
     (let cs = (case map_of module_results (fst cfg) of None \<Rightarrow> [] | Some c \<Rightarrow> c)
      in (fst cfg, \<lparr>score = compute_module_score cs, module_max = snd cfg, checks = cs\<rparr>))"

definition compute_total_score :: "(string \<times> check list) list \<Rightarrow> evaluation_result" where
  "compute_total_score module_results =
     (let ms = map (module_entry module_results) MODULE_CONFIG;
          total = sum_list (map (\<lambda>m. score (snd m)) ms)
      in \<lparr>total_score = total,
          max_score = sum_list (map snd MODULE_CONFIG),
          band = score_to_band total,
          modules = ms\<rparr>)"

fun run_requested :: "world \<Rightarrow> fsnode \<Rightarrow> bool \<Rightarrow> string list \<Rightarrow> (string \<times> check list) list
                      \<Rightarrow> (string \<times> check list) list" where
  \<comment> \<open>the first loop of \<^verbatim>\<open>evaluate\<close>: an unknown module is skipped with a warning\<close>
  "run_requested w root quick [] module_results = module_results"
| "run_requested w root quick (m # ms) module_results =
     run_requested w root quick ms
       (if m \<notin> set (map fst MODULE_VALIDATORS) then module_results
        else dict_set m (run_module w m root quick) module_results)"

fun fill_missing :: "string list \<Rightarrow> (string \<times> check list) list \<Rightarrow> (string \<times> check list) list" where
  \<comment> \<open>the second loop: a module that was not run gets the empty list\<close>
  "fill_missing [] module_results = module_results"
| "fill_missing (m # ms) module_results =
     fill_missing ms (if m \<notin> set (map fst module_results) then dict_set m [] module_results
                      else module_results)"

definition evaluate :: "world \<Rightarrow> fsnode option \<Rightarrow> string option \<Rightarrow> bool \<Rightarrow> evaluation_result option" where
  \<comment> \<open>\<^verbatim>\<open>evaluate\<close>; None is \<^verbatim>\<open>sys.exit(1)\<close>, for a path that is not a directory\<close>
  "evaluate w submission module_arg quick =
     (case submission of
        Some (Dir es) \<Rightarrow>
          (let modules_to_run =
                 (case module_arg of
                    None \<Rightarrow> VALID_MODULES
                  | Some m \<Rightarrow> (if m = [] then VALID_MODULES else [m]))
           in Some (compute_total_score
                      (fill_missing VALID_MODULES
                         (run_requested w (Dir es) quick modules_to_run []))))
      | _ \<Rightarrow> None)"

section \<open>Bounds on points: the predicates\<close>

text \<open>
  A Check is in range when its points lie between zero and its maximum; a list of Checks is
  within a cap when each is in range and the maxima add up to the cap at most.  Each
  validator has a cap, the sum of the maxima of the Checks of its longest run, and each
  module the maximum of its configuration.
\<close>

definition bounded :: "int \<Rightarrow> check \<Rightarrow> bool" where
  "bounded k c = (max_points c = k \<and> 0 \<le> points_awarded c \<and> points_awarded c \<le> k)"

definition in_range :: "check \<Rightarrow> bool" where
  "in_range c = (0 \<le> points_awarded c \<and> points_awarded c \<le> max_points c)"

definition within :: "int \<Rightarrow> check list \<Rightarrow> bool" where
  "within k cs = (list_all in_range cs \<and> sum_list (map max_points cs) \<le> k)"

definition ok_result :: "int \<Rightarrow> exn + check list \<Rightarrow> bool" where
  "ok_result k m = (case m of Inl e \<Rightarrow> True | Inr cs \<Rightarrow> within k cs)"

fun validator_cap :: "validator \<Rightarrow> int" where
  "validator_cap terraform_validator = 25"
| "validator_cap kubernetes_validator = 25"
| "validator_cap shell_validator = 20"
| "validator_cap pipeline_validator = 11"
| "validator_cap python_validator = 4"
| "validator_cap document_validator = 15"

definition module_cap :: "string \<Rightarrow> int" where
  "module_cap m = (case map_of MODULE_CONFIG m of None \<Rightarrow> 0 | Some k \<Rightarrow> k)"

definition results_ok :: "(string \<times> check list) list \<Rightarrow> bool" where
  "results_ok mr = (\<forall>n cs. map_of mr n = Some cs \<longrightarrow> within (module_cap n) cs)"

section \<open>Concrete surroundings and submissions\<close>

definition plain_world :: world where
  \<comment> \<open>no keyword file, no HCL library, no \<^verbatim>\<open>shellcheck\<close>, parsers that reject every text\<close>
  "plain_world =
     \<lparr>keyword_file = [],
      re_search = (\<lambda>kw text. str_contains kw text),
      hcl2_available = False,
      hcl2_load = (\<lambda>s. None),
      yaml_safe_load_all = (\<lambda>s. None),
      yaml_safe_load = (\<lambda>s. Inl ''mapping values are not allowed here''),
      ast_parse = (\<lambda>s. Inl ''invalid syntax''),
      shellcheck = (\<lambda>p. FileNotFoundError)\<rparr>"

definition undecodable_pipeline :: fsnode where
  "undecodable_pipeline =
     Dir [(''cicd'', Dir [(''pipeline.yaml'', File (Undecodable ''invalid start byte''))])]"

section \<open>The submission without its directories: the predicates\<close>






text \<open>
  A submission whose two Python files hold only stubs, with the parser's answer for them:
  the nodes in the order of \<^verbatim>\<open>ast.walk\<close>.
\<close>

definition stub_source :: string where
  "stub_source =
     str_join [CHR 0x0A]
       [''def rollback():'',
        ''    '' @ [CHR 0x22, CHR 0x22, CHR 0x22] @ ''Roll back.'' @ [CHR 0x22, CHR 0x22, CHR 0x22],
        ''    pass'',
        ''def health_check():'',
        ''    pass'']"

definition stub_nodes :: "node list" where
  "stub_nodes =
     [OtherNode,
      StmtNode (FunctionDef ''rollback'' [Expr (StrConstant ''Roll back.''), Pass]),
      StmtNode (FunctionDef ''health_check'' [Pass]),
      OtherNode, StmtNode (Expr (StrConstant ''Roll back.'')), StmtNode Pass,
      OtherNode, StmtNode Pass,
      ExprNode (StrConstant ''Roll back.'')]"

definition stub_world :: world where
  "stub_world =
     plain_world\<lparr>ast_parse := (\<lambda>s. if s = stub_source then Inr stub_nodes else Inl ''invalid syntax'')\<rparr>"

definition stub_submission :: fsnode where
  "stub_submission =
     Dir [(''cicd'', Dir [(''deploy.py'', File (Text stub_source))]),
          (''network'', Dir [(''camera_discovery.py'', File (Text stub_source))])]"

text \<open>
  A manifest whose container has the key \<^verbatim>\<open>resources\<close> without a value, with the
  loader's answer for it.
\<close>

definition pod_yaml :: string where
  "pod_yaml =
     str_join [CHR 0x0A]
       [''kind: Pod'',
        ''spec:'',
        ''  containers:'',
        ''  - name: app'',
        ''    resources:'']"

definition pod_doc :: yv where
  "pod_doc =
     YDict [(''kind'', YStr ''Pod''),
            (''spec'', YDict [(''containers'',
               YList [YDict [(''name'', YStr ''app''), (''resources'', YNone)]])])]"

definition pod_world :: world where
  "pod_world =
     plain_world\<lparr>yaml_safe_load_all := (\<lambda>s. if s = pod_yaml then Some [pod_doc] else None)\<rparr>"

definition pod_submission :: fsnode where
  "pod_submission = Dir [(''k8s'', Dir [(''pod.yaml'', File (Text pod_yaml))])]"

text \<open>A submission whose \<^verbatim>\<open>terraform\<close> directory is empty.\<close>

definition empty_terraform :: fsnode where
  "empty_terraform = Dir [(''terraform'', Dir [])]"

text \<open>
  A stub, in the words of the specification: a routine whose body holds only a docstring
  and the no-op statement.
\<close>

fun docstring_or_pass :: "stmt \<Rightarrow> bool" where
  "docstring_or_pass Pass = True"
| "docstring_or_pass (Expr (StrConstant d)) = True"
| "docstring_or_pass s = False"

definition only_stubs :: "node list \<Rightarrow> bool" where
  "only_stubs tree =
     list_all (\<lambda>n. case n of
                      StmtNode (FunctionDef fname body) \<Rightarrow> list_all docstring_or_pass body
                    | _ \<Rightarrow> True) tree"

section \<open>Fault isolation in the orchestrator\<close>

lemma run_validators_concat:
  "run_validators call vs acc =
     acc @ concat (map (\<lambda>v. case call v of Inr result \<Rightarrow> result | Inl e \<Rightarrow> [validator_error v e]) vs)"
  by (induction vs arbitrary: acc) (auto split: sum.splits)

lemma evaluate_returns: "\<exists>r. evaluate w (Some (Dir es)) module_arg quick = Some r"
  by (simp add: evaluate_def)

text \<open>
  C4.  Whatever a validator does when called, the loop of \<^verbatim>\<open>run_module\<close> turns each call that
  raises into exactly one Check, named after the validator, with the text of the exception
  as details, no points and \<^verbatim>\<open>passed\<close> false, put where the validator's Checks would have
  been; the Checks collected before and the Checks of the other validators are kept as they
  are, in order.  So it is for \<^verbatim>\<open>run_module\<close> on every module, and \<^verbatim>\<open>evaluate\<close> returns a
  result for every submission directory.
\<close>

theorem run_module_isolates_faults:
  "run_validators call vs acc =
     acc @ concat (map (\<lambda>v. case call v of
                               Inr result \<Rightarrow> result
                             | Inl e \<Rightarrow> [\<lparr>name = ''Validator error ('' @ validator_name v @ '')'',
                                          max_points = 0, points_awarded = 0, passed = False,
                                          details = exn_text e\<rparr>]) vs)
   \<and> run_module w module_name root quick =
       concat (map (\<lambda>v. case validate w v root quick of
                           Inr result \<Rightarrow> result
                         | Inl e \<Rightarrow> [\<lparr>name = ''Validator error ('' @ validator_name v @ '')'',
                                      max_points = 0, points_awarded = 0, passed = False,
                                      details = exn_text e\<rparr>])
                 (case map_of MODULE_VALIDATORS module_name of None \<Rightarrow> [] | Some vs \<Rightarrow> vs))
   \<and> (\<exists>r. evaluate w (Some (Dir es)) module_arg quick = Some r)"
  using run_validators_concat [of call vs acc, unfolded validator_error_def]
        run_validators_concat [of "\<lambda>v. validate w v root quick" _ "[]", unfolded validator_error_def]
        evaluate_returns [of w es module_arg quick]
  by (simp add: run_module_def)

theorem run_module_isolates_faults_witness:
  "run_module plain_world ''cicd'' undecodable_pipeline False =
     [\<lparr>name = ''Validator error (evaluation.validators.pipeline_validator)'',
       max_points = 0, points_awarded = 0, passed = False, details = ''invalid start byte''\<rparr>,
      \<lparr>name = ''deploy.py exists'', max_points = 4, points_awarded = 0, passed = False,
       details = ''File not found or empty''\<rparr>]"
  using run_module_isolates_faults
          [of "\<lambda>v. Inr []" "[]" "[]" plain_world "''cicd''" undecodable_pipeline False "[]" None]
  by (simp add: MODULE_VALIDATORS_def pipeline_validate_def python_validate_def read_file_def
        undecodable_pipeline_def bindE_def mk_check_def)

section \<open>Bounds on points\<close>

lemma ok_result_bind: "(\<And>x. ok_result k (f x)) \<Longrightarrow> ok_result k (bindE m f)"
  by (cases m) (simp_all add: bindE_def ok_result_def)

lemma ok_result_Inr: "within k cs \<Longrightarrow> ok_result k (Inr cs)"
  by (simp add: ok_result_def)

lemma within_Nil: "0 \<le> k \<Longrightarrow> within k []"
  by (simp add: within_def)

lemma within_Cons: "bounded j c \<Longrightarrow> within (k - j) cs \<Longrightarrow> within k (c # cs)"
  by (auto simp: within_def bounded_def in_range_def)

lemma bounded_mk_check: "0 \<le> k \<Longrightarrow> bounded k (mk_check n k p d)"
  by (simp add: bounded_def mk_check_def)

lemma tf_check_hcl_bounded: "bounded 5 (tf_check_hcl w root)"
  by (simp add: tf_check_hcl_def Let_def bounded_mk_check)

lemma tf_check_plan_bounded: "bounded 5 (tf_check_plan w root ks)"
  by (simp add: tf_check_plan_def Let_def bounded_mk_check)

lemma tf_check_vpc_bounded: "bounded 4 (tf_check_vpc s)"
  by (simp add: tf_check_vpc_def Let_def bounded_mk_check)

lemma tf_check_sg_bounded: "bounded 2 (tf_check_sg s)"
  by (simp add: tf_check_sg_def Let_def bounded_mk_check)

lemma tf_check_eks_bounded: "bounded 2 (tf_check_eks s)"
  by (simp add: tf_check_eks_def Let_def bounded_mk_check)

lemma tf_check_cost_bounded: "bounded 4 (tf_check_cost s)"
  by (simp add: tf_check_cost_def Let_def bounded_mk_check)

lemma tf_check_analysis_bounded: "bounded 3 (tf_check_analysis s)"
  by (simp add: tf_check_analysis_def Let_def bounded_mk_check)

lemmas tf_bounded = tf_check_hcl_bounded tf_check_plan_bounded tf_check_vpc_bounded
  tf_check_sg_bounded tf_check_eks_bounded tf_check_cost_bounded tf_check_analysis_bounded

lemma ok_result_if: "ok_result k a \<Longrightarrow> ok_result k b \<Longrightarrow> ok_result k (if c then a else b)"
  by simp

lemma ok_result_let: "ok_result k (f x) \<Longrightarrow> ok_result k (Let x f)"
  by simp

lemmas ok_intros = ok_result_if ok_result_let ok_result_bind ok_result_Inr

lemma within_Cons_iff: "within k (c # cs) = (in_range c \<and> within (k - max_points c) cs)"
  by (auto simp: within_def)

lemma within_Nil_iff: "within k [] = (0 \<le> k)"
  by (simp add: within_def)

lemma bounded_max: "bounded j c \<Longrightarrow> max_points c = j"
  by (simp add: bounded_def)

lemma bounded_in_range: "bounded j c \<Longrightarrow> in_range c"
  by (simp add: bounded_def in_range_def)

lemma max_points_mk_check: "max_points (mk_check n k p d) = k"
  by (simp add: mk_check_def)

lemma in_range_mk_check: "0 \<le> k \<Longrightarrow> in_range (mk_check n k p d)"
  by (simp add: mk_check_def in_range_def)

lemmas within_simps = within_Cons_iff within_Nil_iff max_points_mk_check in_range_mk_check

lemma terraform_ok: "ok_result 25 (terraform_validate w root quick)"
  unfolding terraform_validate_def
  by (intro ok_intros)
     (simp_all add: within_simps tf_bounded [THEN bounded_max] tf_bounded [THEN bounded_in_range])

lemma ok_result_bindI: "(\<And>x. m = Inr x \<Longrightarrow> ok_result k (f x)) \<Longrightarrow> ok_result k (bindE m f)"
  by (cases m) (simp_all add: bindE_def ok_result_def)

lemma bindE_Inr_iff: "(bindE m f = Inr y) = (\<exists>x. m = Inr x \<and> f x = Inr y)"
  by (cases m) (simp_all add: bindE_def)

lemma read_all_length: "read_all root ps = Inr ss \<Longrightarrow> length ss = length ps"
  by (induction ps arbitrary: ss) (auto simp: bindE_Inr_iff)

lemma k8s_check_yaml_bounded: "bounded 3 (k8s_check_yaml ls)"
  by (simp add: k8s_check_yaml_def Let_def bounded_mk_check)

lemma k8s_check_resources_bounded: "k8s_check_resources d = Inr c \<Longrightarrow> bounded 1 c"
  by (auto simp: k8s_check_resources_def bindE_Inr_iff bounded_mk_check)

lemma k8s_check_probes_bounded: "k8s_check_probes d = Inr c \<Longrightarrow> bounded 1 c"
  by (auto simp: k8s_check_probes_def bindE_Inr_iff bounded_mk_check)

lemma k8s_check_hpa_bounded: "k8s_check_hpa d = Inr c \<Longrightarrow> bounded 1 c"
  by (auto simp: k8s_check_hpa_def bindE_Inr_iff bounded_mk_check)

lemma k8s_check_netpol_bounded: "k8s_check_netpol d = Inr c \<Longrightarrow> bounded 1 c"
  by (auto simp: k8s_check_netpol_def bindE_Inr_iff bounded_mk_check)

lemma k8s_check_image_bounded: "k8s_check_image d = Inr c \<Longrightarrow> bounded 1 c"
  by (auto simp: k8s_check_image_def bindE_Inr_iff bounded_mk_check)

lemma k8s_check_anti_affinity_bounded: "bounded 1 (k8s_check_anti_affinity d)"
  by (simp add: k8s_check_anti_affinity_def bounded_mk_check)

lemma k8s_check_security_bounded: "bounded 2 (k8s_check_security d)"
  by (simp add: k8s_check_security_def Let_def bounded_mk_check)

lemma k8s_check_configmap_bounded: "bounded 1 (k8s_check_configmap d)"
  by (simp add: k8s_check_configmap_def Let_def bounded_mk_check)

lemma k8s_check_prevention_bounded: "bounded 1 (k8s_check_prevention w raws)"
  by (simp add: k8s_check_prevention_def Let_def bounded_mk_check)

lemma incident_check_bounded: "bounded 4 (incident_check w n raw)"
  by (simp add: incident_check_def Let_def bounded_def mk_check_def)

lemmas k8s_bounded = k8s_check_yaml_bounded k8s_check_anti_affinity_bounded k8s_check_security_bounded
  k8s_check_configmap_bounded k8s_check_prevention_bounded incident_check_bounded

lemmas k8s_boundedD = k8s_check_resources_bounded k8s_check_probes_bounded k8s_check_hpa_bounded
  k8s_check_netpol_bounded k8s_check_image_bounded

lemma length3: "length xs = 3 \<Longrightarrow> \<exists>a b c. xs = [a, b, c]"
  by (auto simp: numeral_3_eq_3 length_Suc_conv)

lemma kubernetes_ok: "ok_result 25 (kubernetes_validate w root quick)"
  unfolding kubernetes_validate_def
proof (intro ok_result_if ok_result_let ok_result_bindI ok_result_Inr, goal_cases)
  case 1
  show ?case by (simp add: within_simps)
next
  case (2 ls)
  show ?case
    by (simp add: within_simps k8s_bounded [THEN bounded_max] k8s_bounded [THEN bounded_in_range])
next
  case (3 ls c2 c3 c4 c6 c8 raws raws2)
  have b: "bounded 1 c2" "bounded 1 c3" "bounded 1 c4" "bounded 1 c6" "bounded 1 c8"
    using 3 by (auto dest: k8s_boundedD)
  have "length raws = 3"
    using read_all_length [OF 3(7)] by simp
  then obtain r1 r2 r3 where raws: "raws = [r1, r2, r3]"
    using length3 by blast
  show ?case
    by (simp add: raws within_simps b [THEN bounded_max] b [THEN bounded_in_range]
        k8s_bounded [THEN bounded_max] k8s_bounded [THEN bounded_in_range])
qed

lemma sh_check_shellcheck_bounded: "bounded 2 (sh_check_shellcheck w scripts)"
  by (simp add: sh_check_shellcheck_def Let_def bounded_mk_check)

lemma sh_check_py_syntax_bounded: "bounded 1 (sh_check_py_syntax w s)"
  by (simp add: sh_check_py_syntax_def Let_def bounded_mk_check)

lemma sh_check_drop_bounded: "bounded 3 (sh_check_drop s)"
  by (simp add: sh_check_drop_def bounded_mk_check)

lemma sh_check_firewall_bounded: "bounded 3 (sh_check_firewall s)"
  by (simp add: sh_check_firewall_def Let_def bounded_mk_check)

lemma sh_check_setup_bounded: "bounded 5 (sh_check_setup s)"
  by (simp add: sh_check_setup_def Let_def bounded_mk_check)

lemma sh_check_camera_bounded: "bounded 3 (sh_check_camera w s)"
  by (simp add: sh_check_camera_def Let_def bounded_mk_check)

lemma sh_check_site_plan_bounded: "bounded 2 (sh_check_site_plan w s)"
  by (simp add: sh_check_site_plan_def Let_def bounded_mk_check)

lemma sh_check_golden_bounded: "bounded 1 (sh_check_golden w s)"
  by (simp add: sh_check_golden_def Let_def bounded_mk_check)

lemmas sh_bounded = sh_check_shellcheck_bounded sh_check_py_syntax_bounded sh_check_drop_bounded
  sh_check_firewall_bounded sh_check_setup_bounded sh_check_camera_bounded
  sh_check_site_plan_bounded sh_check_golden_bounded

lemma shell_ok: "ok_result 20 (shell_validate w root quick)"
  unfolding shell_validate_def
  by (intro ok_intros)
     (simp_all add: within_simps sh_bounded [THEN bounded_max] sh_bounded [THEN bounded_in_range])

lemma kw_matches_nonneg: "0 \<le> kw_matches w kws text"
  by (simp add: kw_matches_def)

lemma pl_check_syntax_bounded: "bounded 1 (pl_check_syntax w s)"
  by (simp add: pl_check_syntax_def Let_def bounded_mk_check split: sum.splits)

lemma pl_check_stages_bounded: "bounded 3 (pl_check_stages s)"
  by (simp add: pl_check_stages_def Let_def bounded_def)

lemma pl_check_ecr_bounded: "bounded 3 (pl_check_ecr s)"
  by (simp add: pl_check_ecr_def Let_def bounded_def)

lemma pl_check_rollback_bounded: "bounded 1 (pl_check_rollback s)"
  by (simp add: pl_check_rollback_def bounded_mk_check)

lemma pl_check_monitoring_bounded: "bounded 3 (pl_check_monitoring w s)"
  by (simp add: pl_check_monitoring_def Let_def bounded_def)

lemmas pl_bounded = pl_check_syntax_bounded pl_check_stages_bounded pl_check_ecr_bounded
  pl_check_rollback_bounded pl_check_monitoring_bounded

lemma pipeline_ok: "ok_result 11 (pipeline_validate w root quick)"
  unfolding pipeline_validate_def
  by (intro ok_intros)
     (simp_all add: within_simps pl_bounded [THEN bounded_max] pl_bounded [THEN bounded_in_range])

lemma py_check_deploy_bounded: "bounded 4 (py_check_deploy s t)"
  by (simp add: py_check_deploy_def Let_def bounded_def)

lemma ok_result_case_sum:
  "(\<And>e. ok_result k (f e)) \<Longrightarrow> (\<And>x. ok_result k (g x)) \<Longrightarrow> ok_result k (case_sum f g m)"
  by (cases m) simp_all

lemma python_ok: "ok_result 4 (python_validate w root quick)"
  unfolding python_validate_def
  by (intro ok_intros ok_result_case_sum)
     (simp_all add: within_simps py_check_deploy_bounded [THEN bounded_max]
        py_check_deploy_bounded [THEN bounded_in_range])

lemma capped_check_bounded: "0 \<le> m \<Longrightarrow> bounded 3 (capped_check n l m)"
  by (simp add: capped_check_def bounded_def)

lemma count_keyword_matches_nonneg: "0 \<le> count_keyword_matches w c kws"
  by (simp add: count_keyword_matches_def kw_matches_nonneg)

lemma doc_check_mtu_bounded: "bounded 3 (doc_check_mtu w s)"
  by (simp add: doc_check_mtu_def capped_check_bounded count_keyword_matches_nonneg)

lemma doc_check_vpn_bounded: "bounded 3 (doc_check_vpn w s)"
  by (simp add: doc_check_vpn_def capped_check_bounded count_keyword_matches_nonneg)

lemma doc_check_timeline_bounded: "bounded 1 (doc_check_timeline w s)"
  by (simp add: doc_check_timeline_def Let_def bounded_mk_check)

lemma doc_check_remediation_bounded: "bounded 3 (doc_check_remediation w s)"
  by (simp add: doc_check_remediation_def Let_def bounded_def)

lemma doc_check_postmortem_bounded: "bounded 2 (doc_check_postmortem w s)"
  by (simp add: doc_check_postmortem_def Let_def bounded_def)

lemma doc_check_product_bounded: "bounded 3 (doc_check_product w s)"
  using count_keyword_matches_nonneg [of w "lower (strip_md_template s)"]
  by (simp add: doc_check_product_def Let_def bounded_def)

lemmas doc_bounded = doc_check_mtu_bounded doc_check_vpn_bounded doc_check_timeline_bounded
  doc_check_remediation_bounded doc_check_postmortem_bounded doc_check_product_bounded

lemma document_ok: "ok_result 15 (document_validate w root quick)"
  unfolding document_validate_def
  by (intro ok_intros)
     (simp_all add: within_simps doc_bounded [THEN bounded_max] doc_bounded [THEN bounded_in_range])

lemma validate_ok: "ok_result (validator_cap v) (validate w v root quick)"
  by (cases v) (simp_all add: terraform_ok kubernetes_ok shell_ok pipeline_ok python_ok document_ok)

lemma within_append: "within j xs \<Longrightarrow> within k ys \<Longrightarrow> within (j + k) (xs @ ys)"
  by (simp add: within_def)

lemma within_mono: "within j xs \<Longrightarrow> j \<le> k \<Longrightarrow> within k xs"
  by (simp add: within_def)

lemma validator_cap_nonneg: "0 \<le> validator_cap v"
  by (cases v) simp_all

lemma within_validator_error: "within (validator_cap v) [validator_error v e]"
  by (simp add: within_def validator_error_def in_range_def validator_cap_nonneg)

lemma within_call:
  "ok_result (validator_cap v) r \<Longrightarrow>
   within (validator_cap v) (case r of Inr result \<Rightarrow> result | Inl e \<Rightarrow> [validator_error v e])"
  by (cases r) (simp_all add: ok_result_def within_validator_error)

lemma within_run_validators:
  assumes "\<And>v. ok_result (validator_cap v) (call v)"
  shows "within (sum_list (map validator_cap vs)) (run_validators call vs [])"
proof -
  have "within (sum_list (map validator_cap vs))
          (concat (map (\<lambda>v. case call v of Inr result \<Rightarrow> result | Inl e \<Rightarrow> [validator_error v e]) vs))"
  proof (induction vs)
    case Nil
    show ?case by (simp add: within_def)
  next
    case (Cons v vs)
    have "within (validator_cap v) (case call v of Inr result \<Rightarrow> result | Inl e \<Rightarrow> [validator_error v e])"
      by (rule within_call) (rule assms)
    from within_append [OF this Cons.IH] show ?case by simp
  qed
  then show ?thesis by (simp add: run_validators_concat)
qed

lemma module_cap_nonneg: "0 \<le> module_cap m"
  by (simp add: module_cap_def MODULE_CONFIG_def)

lemma within_run_module: "within (module_cap m) (run_module w m root quick)"
proof -
  let ?vs = "case map_of MODULE_VALIDATORS m of None \<Rightarrow> [] | Some vs \<Rightarrow> vs"
  have "within (sum_list (map validator_cap ?vs)) (run_module w m root quick)"
    unfolding run_module_def by (rule within_run_validators) (rule validate_ok)
  moreover have "sum_list (map validator_cap ?vs) \<le> module_cap m"
    by (simp add: MODULE_VALIDATORS_def MODULE_CONFIG_def module_cap_def)
  ultimately show ?thesis by (rule within_mono)
qed

lemma within_score: "within k cs \<Longrightarrow> 0 \<le> compute_module_score cs \<and> compute_module_score cs \<le> k"
proof (induction cs arbitrary: k)
  case Nil
  then show ?case by (simp add: within_def compute_module_score_def)
next
  case (Cons c cs)
  then have "within (k - max_points c) cs" and "in_range c"
    by (simp_all add: within_Cons_iff)
  with Cons.IH [of "k - max_points c"] show ?case
    by (simp add: compute_module_score_def in_range_def)
qed

lemma map_of_dict_set: "map_of (dict_set k v d) = (map_of d)(k \<mapsto> v)"
  by (induction d) (auto simp: fun_eq_iff)

lemma results_ok_set: "results_ok mr \<Longrightarrow> within (module_cap k) v \<Longrightarrow> results_ok (dict_set k v mr)"
  by (simp add: results_ok_def map_of_dict_set)

lemma results_ok_run_requested:
  "results_ok mr \<Longrightarrow> results_ok (run_requested w root quick ms mr)"
  by (induction ms arbitrary: mr) (simp_all add: results_ok_set within_run_module)

lemma results_ok_fill_missing: "results_ok mr \<Longrightarrow> results_ok (fill_missing ms mr)"
  by (induction ms arbitrary: mr) (simp_all add: results_ok_set within_def module_cap_nonneg)

lemma entry_score:
  assumes "results_ok mr"
  shows "0 \<le> score (snd (module_entry mr (n, k))) \<and> score (snd (module_entry mr (n, k))) \<le> module_cap n"
proof (cases "map_of mr n")
  case None
  then show ?thesis
    by (simp add: module_entry_def compute_module_score_def module_cap_nonneg)
next
  case (Some cs)
  with assms have "within (module_cap n) cs" by (simp add: results_ok_def)
  from within_score [OF this] Some show ?thesis by (simp add: module_entry_def)
qed

lemma compute_total_score_bounds:
  assumes "results_ok mr"
  shows "0 \<le> total_score (compute_total_score mr)
         \<and> total_score (compute_total_score mr) \<le> max_score (compute_total_score mr)
         \<and> max_score (compute_total_score mr) = 100"
  using entry_score [OF assms, of "''terraform''" 25] entry_score [OF assms, of "''k8s''" 25]
    entry_score [OF assms, of "''network''" 20] entry_score [OF assms, of "''cicd''" 15]
    entry_score [OF assms, of "''debug''" 15]
  by (simp add: compute_total_score_def MODULE_CONFIG_def module_cap_def Let_def)

text \<open>
  C1.  Every result \<^verbatim>\<open>evaluate\<close> returns, for any submission, any requested module (none, the
  empty name, a known or an unknown one) and either mode, has a total score between zero and
  the maximal score, and the maximal score is the sum of the five configured maxima,
  25 + 25 + 20 + 15 + 15 = 100, whichever modules ran.
\<close>

theorem total_score_within_max:
  "evaluate w submission module_arg quick = Some r \<Longrightarrow>
     0 \<le> total_score r \<and> total_score r \<le> max_score r \<and> max_score r = 25 + 25 + 20 + 15 + 15"
proof -
  assume ev: "evaluate w submission module_arg quick = Some r"
  then obtain ms es where
    r: "r = compute_total_score (fill_missing VALID_MODULES (run_requested w (Dir es) quick ms []))"
    by (auto simp: evaluate_def Let_def split: option.splits fsnode.splits)
  have "results_ok (fill_missing VALID_MODULES (run_requested w (Dir es) quick ms []))"
    by (intro results_ok_fill_missing results_ok_run_requested) (simp add: results_ok_def)
  from compute_total_score_bounds [OF this] r show ?thesis by simp
qed

theorem total_score_within_max_witness:
  "evaluate plain_world (Some undecodable_pipeline) (Some ''cicd'') True
     = Some (the (evaluate plain_world (Some undecodable_pipeline) (Some ''cicd'') True))
   \<and> 0 \<le> total_score (the (evaluate plain_world (Some undecodable_pipeline) (Some ''cicd'') True))
   \<and> total_score (the (evaluate plain_world (Some undecodable_pipeline) (Some ''cicd'') True))
       \<le> max_score (the (evaluate plain_world (Some undecodable_pipeline) (Some ''cicd'') True))
   \<and> max_score (the (evaluate plain_world (Some undecodable_pipeline) (Some ''cicd'') True)) = 100"
proof -
  have h: "evaluate plain_world (Some undecodable_pipeline) (Some ''cicd'') True
             = Some (the (evaluate plain_world (Some undecodable_pipeline) (Some ''cicd'') True))"
    by (simp add: evaluate_def undecodable_pipeline_def)
  from total_score_within_max [OF h] h show ?thesis by simp
qed


section \<open>The submission without its directories\<close>

lemma lookup_missing: "map_of es d = None \<Longrightarrow> lookup_path (d # ps) (Dir es) = None"
  by simp































































section \<open>A submission of stubs\<close>

lemma stub_source_nonempty: "stub_source \<noteq> []"
  by (simp add: stub_source_def)

lemma stub_python_full:
  "python_validate stub_world stub_submission False =
     Inr [\<lparr>name = ''deploy.py: valid Python, argparse, rollback, healthcheck'', max_points = 4,
           points_awarded = 1, passed = False, details = ''Found: valid syntax''\<rparr>]"
  by (simp add: python_validate_def bindE_def read_file_def stub_submission_def stub_source_nonempty
      stub_world_def py_check_deploy_def has_argparse_def stub_nodes_def implemented_funcs_def
      is_implemented_def is_real_stmt_def)

lemma stub_python_quick:
  "python_validate stub_world stub_submission True = Inr [mk_check ''deploy.py: valid Python syntax'' 1 True []]"
  by (simp add: python_validate_def bindE_def read_file_def stub_submission_def stub_source_nonempty
      stub_world_def)


section \<open>An exception that leaves a validator\<close>

lemma pod_yaml_lines:
  "splitlines pod_yaml =
     [''kind: Pod'', ''spec:'', ''  containers:'', ''  - name: app'', ''    resources:'']"
  by (simp add: pod_yaml_def splitlines_def is_linebreak_def)

lemma pod_load: "load_yaml pod_world pod_submission [''k8s'', ''pod.yaml''] = Inr (Some [pod_doc])"
  unfolding load_yaml_def
  by (simp add: pod_submission_def pod_yaml_lines strip_def is_space_def startswith_def pod_world_def
      pod_doc_def)

lemma pod_entries:
  "load_entries pod_world pod_submission (filter is_yaml_name (listdir pod_submission k8s_dir))
     = Inr [(''pod.yaml'', Parsed [pod_doc])]"
proof -
  have "filter is_yaml_name (listdir pod_submission k8s_dir) = [''pod.yaml'']"
    by (simp add: listdir_def pod_submission_def k8s_dir_def is_yaml_name_def endswith_def suffix_to_prefix)
  then show ?thesis
    by (simp add: load_entry_def k8s_dir_def pod_load bindE_def)
qed

lemma pod_containers:
  "find_container_spec pod_doc = [YDict [(''name'', YStr ''app''), (''resources'', YNone)]]"
  by (simp add: find_container_spec_def pod_doc_def py_get_def bindE_def py_iter_def no_attribute_def)

text \<open>
  C3 at a manifest with an empty \<^verbatim>\<open>resources\<close> key: the loop of Check 2 calls \<^verbatim>\<open>get\<close> on
  \<^verbatim>\<open>None\<close> outside any \<^verbatim>\<open>try\<close>, and the \<^verbatim>\<open>AttributeError\<close> leaves \<^verbatim>\<open>validate\<close>.
\<close>

theorem kubernetes_validate_raises:
  "kubernetes_validate pod_world pod_submission False
     = Inl (AttributeError ([CHR 0x27] @ ''NoneType'' @ [CHR 0x27] @ '' object has no attribute ''
                            @ [CHR 0x27] @ ''get'' @ [CHR 0x27]))"
proof -
  have "isdir pod_submission k8s_dir"
    by (simp add: isdir_def pod_submission_def k8s_dir_def)
  moreover have "k8s_check_resources [pod_doc]
     = Inl (AttributeError ([CHR 0x27] @ ''NoneType'' @ [CHR 0x27] @ '' object has no attribute ''
                            @ [CHR 0x27] @ ''get'' @ [CHR 0x27]))"
    by (simp add: k8s_check_resources_def pod_containers py_get_def bindE_def no_attribute_def)
  ultimately show ?thesis
    by (simp add: kubernetes_validate_def pod_entries yaml_files_of_def bindE_def)
qed

section \<open>The external linter\<close>







section \<open>The empty terraform directory\<close>

lemma tf_files_empty: "map_of es ''terraform'' = Some (Dir []) \<Longrightarrow> tf_files (Dir es) = []"
  by (simp add: tf_files_def listdir_def tf_dir_def)

lemma tf_read_empty:
  "map_of es ''terraform'' = Some (Dir []) \<Longrightarrow> read_file (Dir es) (tf_dir @ [f]) = Inr []"
  by (simp add: read_file_def tf_dir_def)

lemma tf_isdir_empty: "map_of es ''terraform'' = Some (Dir []) \<Longrightarrow> isdir (Dir es) tf_dir"
  by (simp add: isdir_def tf_dir_def)








lemma tf_check_sg_none: "tf_check_sg [] = mk_check ''Security groups: no 0.0.0.0/0 on SSH'' 2 True []"
  by (simp add: tf_check_sg_def)

lemma terraform_empty_full:
  assumes "map_of es ''terraform'' = Some (Dir [])"
  shows "terraform_validate w (Dir es) False =
           Inr [tf_check_hcl w (Dir es), tf_check_plan w (Dir es) [[], [], []], tf_check_vpc [],
                mk_check ''Security groups: no 0.0.0.0/0 on SSH'' 2 True [],
                tf_check_eks [], tf_check_cost [], tf_check_analysis []]"
  by (simp add: terraform_validate_def tf_isdir_empty [OF assms] tf_files_empty [OF assms]
      tf_read_empty [OF assms] key_files_def bindE_def tf_check_sg_none tf_all_content_def)

lemma terraform_empty_quick:
  assumes "map_of es ''terraform'' = Some (Dir [])"
  shows "terraform_validate w (Dir es) True =
           Inr [tf_check_hcl w (Dir es), tf_check_plan w (Dir es) [[], [], []]]"
  by (simp add: terraform_validate_def tf_isdir_empty [OF assms] tf_files_empty [OF assms]
      tf_read_empty [OF assms] key_files_def bindE_def)





section \<open>Quick mode and full mode\<close>

lemma terraform_prefix:
  "terraform_validate w root False = Inr full \<Longrightarrow>
   \<exists>quick. terraform_validate w root True = Inr quick \<and> prefix quick full"
  by (auto simp: terraform_validate_def bindE_Inr_iff split: if_splits)

lemma kubernetes_prefix:
  "kubernetes_validate w root False = Inr full \<Longrightarrow>
   \<exists>quick. kubernetes_validate w root True = Inr quick \<and> prefix quick full"
  by (auto simp: kubernetes_validate_def bindE_Inr_iff Let_def split: if_splits)

lemma shell_prefix:
  "shell_validate w root False = Inr full \<Longrightarrow>
   \<exists>quick. shell_validate w root True = Inr quick \<and> prefix quick full"
  by (auto simp: shell_validate_def bindE_Inr_iff split: if_splits)

lemma pipeline_prefix:
  "pipeline_validate w root False = Inr full \<Longrightarrow>
   \<exists>quick. pipeline_validate w root True = Inr quick \<and> prefix quick full"
  by (auto simp: pipeline_validate_def bindE_Inr_iff Let_def split: if_splits)

lemma document_prefix:
  "document_validate w root False = Inr full \<Longrightarrow>
   \<exists>quick. document_validate w root True = Inr quick \<and> prefix quick full"
  by (auto simp: document_validate_def bindE_Inr_iff Let_def split: if_splits)

lemma python_parsed:
  "read_file root [''cicd'', ''deploy.py''] = Inr content \<Longrightarrow> content \<noteq> [] \<Longrightarrow>
   ast_parse w content = Inr tree \<Longrightarrow>
   python_validate w root True = Inr [mk_check ''deploy.py: valid Python syntax'' 1 True []]
   \<and> python_validate w root False = Inr [py_check_deploy content tree]"
  by (simp add: python_validate_def bindE_def)

lemma python_unparsed:
  "(\<And>content tree. read_file root [''cicd'', ''deploy.py''] = Inr content \<Longrightarrow> content \<noteq> [] \<Longrightarrow>
      ast_parse w content \<noteq> Inr tree) \<Longrightarrow>
   python_validate w root True = python_validate w root False"
  by (cases "read_file root [''cicd'', ''deploy.py'']")
     (auto simp: python_validate_def bindE_def split: sum.splits)

text \<open>
  C6, as the code has it.  For the terraform, kubernetes, shell, pipeline and document
  validators, whenever the full run returns its Checks, the quick run returns a list of
  Checks that is a prefix of them.  For the python validator, a \<^verbatim>\<open>deploy.py\<close> that parses
  gives, in quick mode, the single passing one-point Check ``deploy.py: valid Python
  syntax'' and, in full mode, the single four-point Check on its content; in every other
  case both modes return the same.
\<close>

theorem quick_checks_prefix_of_full:
  "(v \<noteq> python_validator \<longrightarrow> validate w v root False = Inr full \<longrightarrow>
      (\<exists>quick. validate w v root True = Inr quick \<and> prefix quick full))
   \<and> (read_file root [''cicd'', ''deploy.py''] = Inr content \<longrightarrow> content \<noteq> [] \<longrightarrow>
        ast_parse w content = Inr tree \<longrightarrow>
        validate w python_validator root True = Inr [mk_check ''deploy.py: valid Python syntax'' 1 True []]
        \<and> validate w python_validator root False = Inr [py_check_deploy content tree])
   \<and> ((\<forall>content tree. read_file root [''cicd'', ''deploy.py''] = Inr content \<longrightarrow> content \<noteq> [] \<longrightarrow>
          ast_parse w content \<noteq> Inr tree) \<longrightarrow>
        validate w python_validator root True = validate w python_validator root False)"
proof (intro conjI impI)
  assume "v \<noteq> python_validator" and "validate w v root False = Inr full"
  then show "\<exists>quick. validate w v root True = Inr quick \<and> prefix quick full"
    by (cases v)
       (simp_all add: terraform_prefix kubernetes_prefix shell_prefix pipeline_prefix document_prefix)
next
  assume "read_file root [''cicd'', ''deploy.py''] = Inr content" "content \<noteq> []"
    "ast_parse w content = Inr tree"
  from python_parsed [OF this]
  show "validate w python_validator root True = Inr [mk_check ''deploy.py: valid Python syntax'' 1 True []]"
    and "validate w python_validator root False = Inr [py_check_deploy content tree]"
    by simp_all
next
  assume "\<forall>content tree. read_file root [''cicd'', ''deploy.py''] = Inr content \<longrightarrow> content \<noteq> [] \<longrightarrow>
          ast_parse w content \<noteq> Inr tree"
  then show "validate w python_validator root True = validate w python_validator root False"
    using python_unparsed [of root w] by simp
qed

theorem python_quick_check_counterexample:
  "validate stub_world python_validator stub_submission True
     = Inr [mk_check ''deploy.py: valid Python syntax'' 1 True []]
   \<and> validate stub_world python_validator stub_submission False
     = Inr [\<lparr>name = ''deploy.py: valid Python, argparse, rollback, healthcheck'', max_points = 4,
             points_awarded = 1, passed = False, details = ''Found: valid syntax''\<rparr>]
   \<and> \<not> set [mk_check ''deploy.py: valid Python syntax'' 1 True []]
        \<subseteq> set [\<lparr>name = ''deploy.py: valid Python, argparse, rollback, healthcheck'', max_points = 4,
             points_awarded = 1, passed = False, details = ''Found: valid syntax''\<rparr>]"
  by (simp add: stub_python_quick stub_python_full mk_check_def)

theorem quick_checks_prefix_of_full_witness:
  "(\<exists>quick full. validate plain_world terraform_validator empty_terraform False = Inr full
        \<and> validate plain_world terraform_validator empty_terraform True = Inr quick
        \<and> prefix quick full \<and> length quick = 2 \<and> length full = 7)
   \<and> validate stub_world python_validator stub_submission True
       = Inr [mk_check ''deploy.py: valid Python syntax'' 1 True []]
   \<and> validate plain_world python_validator (Dir []) True
       = validate plain_world python_validator (Dir []) False"
proof -
  have a: "map_of [(''terraform'', Dir [])] ''terraform'' = Some (Dir [])" by simp
  have full: "validate plain_world terraform_validator empty_terraform False =
           Inr [tf_check_hcl plain_world empty_terraform, tf_check_plan plain_world empty_terraform [[], [], []],
                tf_check_vpc [], mk_check ''Security groups: no 0.0.0.0/0 on SSH'' 2 True [],
                tf_check_eks [], tf_check_cost [], tf_check_analysis []]"
    unfolding empty_terraform_def using terraform_empty_full [OF a] by simp
  have quick: "validate plain_world terraform_validator empty_terraform True =
           Inr [tf_check_hcl plain_world empty_terraform, tf_check_plan plain_world empty_terraform [[], [], []]]"
    unfolding empty_terraform_def using terraform_empty_quick [OF a] by simp
  have "terraform_validator \<noteq> python_validator" by simp
  from quick_checks_prefix_of_full [THEN conjunct1, rule_format, OF this full]
  have c1: "\<exists>quick full. validate plain_world terraform_validator empty_terraform False = Inr full
        \<and> validate plain_world terraform_validator empty_terraform True = Inr quick
        \<and> prefix quick full \<and> length quick = 2 \<and> length full = 7"
    using full quick by auto
  have r: "read_file stub_submission [''cicd'', ''deploy.py''] = Inr stub_source"
    by (simp add: read_file_def stub_submission_def)
  have p: "ast_parse stub_world stub_source = Inr stub_nodes"
    by (simp add: stub_world_def)
  from quick_checks_prefix_of_full [THEN conjunct2, THEN conjunct1, rule_format, OF r stub_source_nonempty p]
  have c2: "validate stub_world python_validator stub_submission True
       = Inr [mk_check ''deploy.py: valid Python syntax'' 1 True []]"
    by simp
  have h: "\<forall>content tree. read_file (Dir []) [''cicd'', ''deploy.py''] = Inr content \<longrightarrow> content \<noteq> [] \<longrightarrow>
          ast_parse plain_world content \<noteq> Inr tree"
    by (simp add: read_file_def)
  have c3: "validate plain_world python_validator (Dir []) True
       = validate plain_world python_validator (Dir []) False"
    using quick_checks_prefix_of_full [of _ plain_world "Dir []", THEN conjunct2, THEN conjunct2] h
    by blast
  from c1 c2 c3 show ?thesis by blast
qed

section \<open>Stub routines\<close>

lemma stub_not_real: "docstring_or_pass s \<Longrightarrow> \<not> is_real_stmt s"
  by (cases s rule: docstring_or_pass.cases) (simp_all add: is_real_stmt_def)

lemma stub_body: "list_all docstring_or_pass body \<Longrightarrow> \<not> is_implemented body"
  by (simp add: is_implemented_def filter_empty_conv list_all_iff stub_not_real)

lemma stubs_none_implemented: "only_stubs tree \<Longrightarrow> implemented_funcs tree = []"
  unfolding only_stubs_def implemented_funcs_def
  by (induction tree) (auto simp: stub_body split: node.splits stmt.splits)

lemma dict_set_false: "list_all (\<lambda>e. \<not> snd e) d \<Longrightarrow> list_all (\<lambda>e. \<not> snd e) (dict_set k False d)"
  by (induction d) auto

lemma stubs_func_bodies:
  "only_stubs tree \<Longrightarrow> list_all (\<lambda>e. \<not> snd e) d \<Longrightarrow> list_all (\<lambda>e. \<not> snd e) (func_bodies tree d)"
proof (induction tree d rule: func_bodies.induct)
  case (1 d)
  then show ?case by simp
next
  case (2 fname body ns d)
  then have "\<not> is_implemented body" and "only_stubs ns"
    by (simp_all add: only_stubs_def stub_body)
  with 2 show ?case by (simp add: dict_set_false)
qed (simp_all add: only_stubs_def)

lemma stubs_camera:
  assumes "only_stubs tree" and "ast_parse w camera_content = Inr tree"
  shows "sh_check_camera w camera_content =
           mk_check ''camera_discovery.py: XML parsing, JSON output, timeout'' 3 False
             ''Skeleton not implemented''"
proof -
  have "list_all (\<lambda>e. \<not> snd e) (func_bodies tree [])"
    using stubs_func_bodies [OF assms(1), of "[]"] by simp
  then have "\<not> list_ex snd (func_bodies tree [])"
    by (simp add: list_all_iff list_ex_iff)
  then show ?thesis
    by (simp add: sh_check_camera_def assms(2))
qed

text \<open>
  C9.  When every function definition of a file has a body of docstrings and \<^verbatim>\<open>pass\<close> only,
  no function counts as implemented, whatever its name: the Check of \<^verbatim>\<open>deploy.py\<close> gives the
  point for valid syntax and at most the one for argparse, nothing for rollback or health
  check, and does not pass; the Check of \<^verbatim>\<open>camera_discovery.py\<close> gives no point and reports
  the skeleton as not implemented.
\<close>

theorem stubs_score_nothing:
  assumes "only_stubs tree"
  shows "implemented_funcs tree = []
         \<and> points_awarded (py_check_deploy content tree)
             = (if has_argparse tree
                   \<and> (str_contains ''add_argument'' content \<or> str_contains ''add_subparsers'' content)
                then 2 else 1)
         \<and> \<not> passed (py_check_deploy content tree)
         \<and> \<not> str_contains ''rollback function'' (details (py_check_deploy content tree))
         \<and> \<not> str_contains ''healthcheck function'' (details (py_check_deploy content tree))
         \<and> (read_file root [''cicd'', ''deploy.py''] = Inr content \<longrightarrow> content \<noteq> [] \<longrightarrow>
               ast_parse w content = Inr tree \<longrightarrow>
               python_validate w root False = Inr [py_check_deploy content tree])
         \<and> (ast_parse w camera_content = Inr tree \<longrightarrow>
               sh_check_camera w camera_content =
                 mk_check ''camera_discovery.py: XML parsing, JSON output, timeout'' 3 False
                   ''Skeleton not implemented'')"
proof -
  have none: "implemented_funcs tree = []"
    by (rule stubs_none_implemented) (rule assms)
  have pts: "points_awarded (py_check_deploy content tree)
             = (if has_argparse tree
                   \<and> (str_contains ''add_argument'' content \<or> str_contains ''add_subparsers'' content)
                then 2 else 1)"
    by (simp add: py_check_deploy_def none Let_def)
  have np: "\<not> passed (py_check_deploy content tree)"
    by (simp add: py_check_deploy_def none Let_def)
  have det: "details (py_check_deploy content tree) \<in>
               {''Found: valid syntax'', ''Found: valid syntax, argparse'',
                ''Found: valid syntax, argparse, subcommands''}"
    by (simp add: py_check_deploy_def none Let_def)
  have d1: "\<not> str_contains ''rollback function'' (details (py_check_deploy content tree))"
    using det by (auto simp: prefix_def)
  have d2: "\<not> str_contains ''healthcheck function'' (details (py_check_deploy content tree))"
    using det by (auto simp: prefix_def)
  have py: "read_file root [''cicd'', ''deploy.py''] = Inr content \<longrightarrow> content \<noteq> [] \<longrightarrow>
               ast_parse w content = Inr tree \<longrightarrow>
               python_validate w root False = Inr [py_check_deploy content tree]"
    by (simp add: python_validate_def bindE_def)
  have cam: "ast_parse w camera_content = Inr tree \<longrightarrow>
               sh_check_camera w camera_content =
                 mk_check ''camera_discovery.py: XML parsing, JSON output, timeout'' 3 False
                   ''Skeleton not implemented''"
    using stubs_camera [OF assms] by blast
  from none pts np d1 d2 py cam show ?thesis by blast
qed

lemma stub_nodes_only_stubs: "only_stubs stub_nodes"
  by (simp add: only_stubs_def stub_nodes_def)

theorem stubs_score_nothing_witness:
  "only_stubs stub_nodes
   \<and> implemented_funcs stub_nodes = []
   \<and> points_awarded (py_check_deploy stub_source stub_nodes) = 1
   \<and> \<not> passed (py_check_deploy stub_source stub_nodes)
   \<and> python_validate stub_world stub_submission False = Inr [py_check_deploy stub_source stub_nodes]
   \<and> sh_check_camera stub_world stub_source =
         mk_check ''camera_discovery.py: XML parsing, JSON output, timeout'' 3 False
           ''Skeleton not implemented''"
proof -
  have r: "read_file stub_submission [''cicd'', ''deploy.py''] = Inr stub_source"
    by (simp add: read_file_def stub_submission_def)
  have p: "ast_parse stub_world stub_source = Inr stub_nodes"
    by (simp add: stub_world_def)
  have a: "\<not> has_argparse stub_nodes"
    by (simp add: has_argparse_def stub_nodes_def)
  note t = stubs_score_nothing [OF stub_nodes_only_stubs, of stub_source stub_submission stub_world stub_source]
  from t [THEN conjunct1] t [THEN conjunct2, THEN conjunct1] t [THEN conjunct2, THEN conjunct2, THEN conjunct1]
    t [THEN conjunct2, THEN conjunct2, THEN conjunct2, THEN conjunct2, THEN conjunct2, THEN conjunct1,
       rule_format, OF r stub_source_nonempty p]
    t [THEN conjunct2, THEN conjunct2, THEN conjunct2, THEN conjunct2, THEN conjunct2, THEN conjunct2,
       rule_format, OF p]
    stub_nodes_only_stubs a
  show ?thesis by simp
qed

end
